theory Spec2Isabelle
  imports Complex_Main "HOL-Library.AList"
begin

section \<open>Python values\<close>

text \<open>
  The trading engine is written in Python. Its floats are modelled as real numbers
  (rounding is not modelled), its unbounded integers as \<open>int\<close> or \<open>nat\<close>, its
  exceptions as values of \<open>py_error\<close> returned on the left of a sum.
\<close>

datatype py_error = KeyError | IndexError | ValueError | TypeError | ZeroDivisionError


text \<open>\<^verbatim>\<open>xs[-k]\<close> for \<open>k \<ge> 1\<close>: the k-th element from the end, or IndexError.\<close>

definition from_end :: "'a list \<Rightarrow> nat \<Rightarrow> py_error + 'a" where
  "from_end xs k =
     (if k = 0 \<or> length xs < k then Inl IndexError else Inr (xs ! (length xs - k)))"

text \<open>\<^verbatim>\<open>xs[-n:]\<close>: the last n elements; all of them when \<open>n = 0\<close> (as \<^verbatim>\<open>xs[-0:]\<close> is \<^verbatim>\<open>xs[0:]\<close>).\<close>

definition last_n :: "'a list \<Rightarrow> nat \<Rightarrow> 'a list" where
  "last_n xs n = (if n = 0 then xs else drop (length xs - n) xs)"

text \<open>\<^verbatim>\<open>xs.index(v)\<close>: position of the first occurrence, ValueError when absent.\<close>

fun index_of :: "'a list \<Rightarrow> 'a \<Rightarrow> nat option" where
  "index_of [] v = None"
| "index_of (x # xs) v = (if x = v then Some 0 else map_option Suc (index_of xs v))"

text \<open>\<^verbatim>\<open>int(x)\<close> on a float: truncation towards zero.\<close>

definition py_int :: "real \<Rightarrow> int" where
  "py_int x = (if 0 \<le> x then \<lfloor>x\<rfloor> else \<lceil>x\<rceil>)"

text \<open>\<^verbatim>\<open>x % m\<close> on floats with a positive modulus.\<close>

definition py_fmod :: "real \<Rightarrow> real \<Rightarrow> real" where
  "py_fmod x m = x - m * of_int \<lfloor>x / m\<rfloor>"

section \<open>Moving averages (common/math.py, core/market.py)\<close>





section \<open>Configuration and market state (configuration.py, core/market.py)\<close>

text \<open>The entries of the shared \<^verbatim>\<open>config\<close> dictionary that the modelled code reads.\<close>

text \<open>
  A detection rule tuple. \<^verbatim>\<open>('ma_crossover', a, b)\<close> and \<^verbatim>\<open>('ema_crossover', a, b)\<close>
  are modelled in full; every other rule kind is named only, and its outcome in the
  current cycle is supplied from outside (see \<open>check_result\<close> below).
\<close>

datatype ma_kind = MA | EMA

datatype rule = Ma_crossover ma_kind nat nat | Other_rule string

text \<open>
  One entry of a detection's \<^verbatim>\<open>follow\<close>, \<^verbatim>\<open>follow_all\<close> or \<^verbatim>\<open>follow_trade\<close> list.
  For the two time bounds the outer \<open>None\<close> is an absent key, which falls back to the
  configured default, and \<open>Some None\<close> is an explicit \<^verbatim>\<open>None\<close>.
\<close>

record follow_rule =
  fr_groups :: "string list"
  fr_types :: "string option list"
  fr_min_delta :: "real option"
  fr_max_delta :: "real option"
  fr_min_ma_delta :: "real option"
  fr_max_ma_delta :: "real option"
  fr_min_secs :: "real option option"
  fr_max_secs :: "real option option"

text \<open>
  One entry of \<^verbatim>\<open>config['detections']\<close>. An optional key is an \<open>option\<close>; for
  \<open>d_action\<close>, \<open>d_occurrence\<close>, \<open>d_groups\<close> and \<open>d_type\<close>, whose defaults in
  \<^verbatim>\<open>get_detection_params\<close> are not \<^verbatim>\<open>None\<close>, the value \<open>None\<close> stands for an absent
  key.
\<close>

record detection =
  conditions :: "rule list list"
  d_action :: "string option"
  d_occurrence :: "nat option"
  d_groups :: "string list option"
  d_type :: "string option"
  time_frame_min :: "real option"
  time_frame_max :: "real option"
  value_range_min :: "real option"
  value_range_max :: "real option"
  distance_range :: "real option"
  max_consecutive :: "nat option"
  overlap :: "real option"
  follow :: "follow_rule list option"
  follow_all :: "follow_rule list option"
  follow_trade :: "follow_rule list option"

record config =
  tick_interval_secs :: nat
  tick_gap_max :: int
  pairs_greylist_secs :: real
  back_refresh_min_secs :: real
  pair_change_filter :: bool
  pair_dip_filter :: bool
  pair_change_min :: real
  pair_change_dip :: real
  pair_change_cutoff :: real
  ma_windows :: "nat list"
  ema_windows :: "nat list"
  detections :: "(string \<times> detection) list"
  detection_min_follow_secs :: "real option"
  detection_max_follow_secs :: "real option"
  detection_flash_crash_sens :: real
  trade_use_indicators :: bool
  enable_rsi :: bool

record back_refresh =
  br_pair :: string
  br_start :: real
  br_end :: real
  br_time :: real

record last_pair =
  lp_value :: real
  lp_change :: real
  lp_delta :: real
  lp_filtered :: bool

text \<open>
  The attributes of \<^verbatim>\<open>Market\<close>, each a dictionary keyed by pair name.
  \<open>base_24hr_volumes\<close> holds the volumes (index 0 in the source) and their
  derivatives (index 1).
\<close>

record market =
  close_times :: "string \<rightharpoonup> real list"
  close_values :: "string \<rightharpoonup> real list"
  base_24hr_volumes :: "string \<rightharpoonup> real list \<times> real list"
  close_times_backup :: "string \<rightharpoonup> real list"
  close_values_backup :: "string \<rightharpoonup> real list"
  base_24hr_volumes_backup :: "string \<rightharpoonup> real list"
  adjusted_close_values :: "string \<rightharpoonup> real list"
  close_value_mas :: "string \<rightharpoonup> (nat \<rightharpoonup> real list)"
  close_value_emas :: "string \<rightharpoonup> (nat \<rightharpoonup> real list)"
  last_update_nums :: "string \<rightharpoonup> int"
  pairs :: "string list"
  greylist_pairs :: "string \<rightharpoonup> real"
  back_refreshes :: "back_refresh list"
  last_pairs :: "string \<rightharpoonup> last_pair"
  min_tick_length :: nat

section \<open>Tick updates (core/market.py)\<close>

text \<open>
  \<^verbatim>\<open>Market._get_tick_delta\<close>. \<open>now\<close> is the value of \<^verbatim>\<open>time.time()\<close>. The result
  \<open>None\<close> is the source's \<^verbatim>\<open>(None, None)\<close>; a zero interval raises in the float modulo.
\<close>

definition get_tick_delta :: "config \<Rightarrow> market \<Rightarrow> real \<Rightarrow> string \<Rightarrow> py_error + (real \<times> int) option" where
  "get_tick_delta cfg m now pair =
     (case close_times m pair of
        None \<Rightarrow> Inr None
      | Some tms \<Rightarrow>
          (case from_end tms 1 of
             Inl e \<Rightarrow> Inr None
           | Inr last_time \<Rightarrow>
               (let interval_secs = tick_interval_secs cfg in
                if interval_secs = 0 then Inl ZeroDivisionError
                else
                  (let close_time = now - py_fmod now (real interval_secs) in
                   if close_time < last_time then Inr None
                   else
                     (let delta_seconds = py_int (close_time - last_time) in
                      if delta_seconds = 0 then Inr None
                      else if delta_seconds > int interval_secs
                        then Inr (Some (close_time, delta_seconds div int interval_secs))
                      else Inr (Some (close_time, 0)))))))"

text \<open>
  The lookup of one timestamp in the backup arrays inside \<^verbatim>\<open>_restore_ticks\<close>:
  \<open>Inr (Some (volume, value))\<close> when found, \<open>Inr None\<close> when the \<^verbatim>\<open>ValueError\<close> or
  \<^verbatim>\<open>KeyError\<close> handler is taken, \<open>Inl IndexError\<close> when a backup array is too short.
\<close>

definition backup_lookup :: "market \<Rightarrow> string \<Rightarrow> real \<Rightarrow> py_error + (real \<times> real) option" where
  "backup_lookup m pair timestamp =
     (case close_times_backup m pair of
        None \<Rightarrow> Inr None
      | Some backup_times \<Rightarrow>
          (case index_of backup_times timestamp of
             None \<Rightarrow> Inr None
           | Some time_index \<Rightarrow>
               (case base_24hr_volumes_backup m pair of
                  None \<Rightarrow> Inr None
                | Some backup_volumes \<Rightarrow>
                    if length backup_volumes \<le> time_index then Inl IndexError
                    else
                      (case close_values_backup m pair of
                         None \<Rightarrow> Inr None
                       | Some backup_values \<Rightarrow>
                           if length backup_values \<le> time_index then Inl IndexError
                           else Inr (Some (backup_volumes ! time_index,
                                           backup_values ! time_index))))))"

text \<open>
  One iteration of the loop of \<^verbatim>\<open>_restore_ticks\<close>. The three arrays are the pair's live
  arrays, appended in place. \<open>last_volume\<close> and \<open>last_value\<close> are read once before the
  loop and not assigned in it.
\<close>

definition restore_tick ::
  "config \<Rightarrow> market \<Rightarrow> string \<Rightarrow> real \<Rightarrow> real \<Rightarrow> int \<Rightarrow> real \<Rightarrow> real \<Rightarrow>
   real list \<times> real list \<times> real list \<times> int \<Rightarrow> int \<Rightarrow>
   py_error + real list \<times> real list \<times> real list \<times> int" where
  "restore_tick cfg m pair last_volume last_value num end_value end_volume st index =
     (case st of (volumes, values, tms, interpolated) \<Rightarrow>
        (case from_end tms 1 of
           Inl e \<Rightarrow> Inl e
         | Inr t \<Rightarrow>
             (let timestamp = t + real (tick_interval_secs cfg) in
              case backup_lookup m pair timestamp of
                Inl e \<Rightarrow> Inl e
              | Inr (Some (volume, value)) \<Rightarrow>
                  Inr (volumes @ [volume], values @ [value], tms @ [timestamp], interpolated)
              | Inr None \<Rightarrow>
                  (let volume_step = (end_volume - last_volume) / of_int (num - index + 1);
                       value_step = (end_value - last_value) / of_int (num - index + 1);
                       volume = last_volume + volume_step;
                       value = last_value + value_step
                   in Inr (volumes @ [volume], values @ [value], tms @ [timestamp],
                           interpolated + 1)))))"

text \<open>
  The loop itself. An exception leaves the elements appended so far in the arrays, so
  the arrays are returned beside the outcome.
\<close>

fun restore_loop ::
  "config \<Rightarrow> market \<Rightarrow> string \<Rightarrow> real \<Rightarrow> real \<Rightarrow> int \<Rightarrow> real \<Rightarrow> real \<Rightarrow>
   int list \<Rightarrow> real list \<times> real list \<times> real list \<times> int \<Rightarrow>
   (real list \<times> real list \<times> real list) \<times> (py_error + int)" where
  "restore_loop cfg m pair last_volume last_value num end_value end_volume [] st =
     (case st of (volumes, values, tms, interpolated) \<Rightarrow>
        ((volumes, values, tms), Inr interpolated))"
| "restore_loop cfg m pair last_volume last_value num end_value end_volume (index # rest) st =
     (case restore_tick cfg m pair last_volume last_value num end_value end_volume st index of
        Inl e \<Rightarrow> (case st of (volumes, values, tms, interpolated) \<Rightarrow>
                    ((volumes, values, tms), Inl e))
      | Inr st' \<Rightarrow>
          restore_loop cfg m pair last_volume last_value num end_value end_volume rest st')"

text \<open>Writing the three live arrays of a pair back into the market.\<close>

definition store_ticks :: "market \<Rightarrow> string \<Rightarrow> real list \<times> real list \<times> real list \<Rightarrow> market" where
  "store_ticks m pair arrays =
     (case arrays of (volumes, values, tms) \<Rightarrow>
        m\<lparr>base_24hr_volumes :=
             (base_24hr_volumes m)(pair \<mapsto>
                (volumes, case base_24hr_volumes m pair of None \<Rightarrow> [] | Some v \<Rightarrow> snd v)),
          close_values := (close_values m)(pair \<mapsto> values),
          close_times := (close_times m)(pair \<mapsto> tms)\<rparr>)"

text \<open>\<^verbatim>\<open>Market._restore_ticks\<close>: returns the number of interpolated ticks.\<close>

definition restore_ticks ::
  "config \<Rightarrow> market \<Rightarrow> string \<Rightarrow> int \<Rightarrow> real \<Rightarrow> real \<Rightarrow> market \<times> (py_error + int)" where
  "restore_ticks cfg m pair num end_value end_volume =
     (if num = 0 then (m, Inr 0)
      else
        (case base_24hr_volumes m pair of
           None \<Rightarrow> (m, Inl KeyError)
         | Some (volumes, derivs) \<Rightarrow>
             (case close_values m pair of
                None \<Rightarrow> (m, Inl KeyError)
              | Some values \<Rightarrow>
                  (case close_times m pair of
                     None \<Rightarrow> (m, Inl KeyError)
                   | Some tms \<Rightarrow>
                       (case from_end volumes 1 of
                          Inl e \<Rightarrow> (m, Inl e)
                        | Inr last_volume \<Rightarrow>
                            (case from_end values 1 of
                               Inl e \<Rightarrow> (m, Inl e)
                             | Inr last_value \<Rightarrow>
                                 (case restore_loop cfg m pair last_volume last_value num
                                         end_value end_volume [0..num - 1]
                                         (volumes, values, tms, 0) of
                                    (arrays, r) \<Rightarrow> (store_ticks m pair arrays, r))))))))"

text \<open>
  \<^verbatim>\<open>Market._schedule_back_refresh\<close>; \<open>rnd\<close> is the value of \<^verbatim>\<open>random.random()\<close>.
\<close>

definition schedule_back_refresh ::
  "config \<Rightarrow> market \<Rightarrow> real \<Rightarrow> real \<Rightarrow> string \<Rightarrow> int \<Rightarrow> py_error + market" where
  "schedule_back_refresh cfg m now rnd pair num =
     (let future_secs0 = real (tick_interval_secs cfg) * of_int num * 2;
          future_secs1 = (if future_secs0 < back_refresh_min_secs cfg
                          then back_refresh_min_secs cfg + future_secs0 / 2 else future_secs0);
          future_secs = future_secs1 + rnd * future_secs1 / 2
      in if num > 0 then
           (case close_times m pair of
              None \<Rightarrow> Inl KeyError
            | Some tms \<Rightarrow>
                (case from_end tms (nat num) of
                   Inl e \<Rightarrow> Inl e
                 | Inr start \<Rightarrow>
                     Inr (m\<lparr>back_refreshes := back_refreshes m @
                              [\<lparr>br_pair = pair, br_start = start,
                                br_end = last tms + real (tick_interval_secs cfg),
                                br_time = now + future_secs\<rparr>]\<rparr>)))
         else Inr m)"

text \<open>\<^verbatim>\<open>Market._truncate_tick_data\<close> and \<^verbatim>\<open>Market._backup_tick_data\<close>.\<close>

definition truncate_tick_data :: "market \<Rightarrow> string \<Rightarrow> py_error + market" where
  "truncate_tick_data m pair =
     (case close_times m pair of
        None \<Rightarrow> Inl KeyError
      | Some tms \<Rightarrow>
          (let truncate = int (length tms) - int (min_tick_length m) in
           if truncate > 60 then
             (case (base_24hr_volumes m pair, close_values m pair) of
                (Some (volumes, derivs), Some values) \<Rightarrow>
                  Inr (m\<lparr>base_24hr_volumes :=
                           (base_24hr_volumes m)(pair \<mapsto> (drop (nat truncate) volumes, derivs)),
                         close_values := (close_values m)(pair \<mapsto> drop (nat truncate) values),
                         close_times := (close_times m)(pair \<mapsto> drop (nat truncate) tms)\<rparr>)
              | _ \<Rightarrow> Inl KeyError)
           else Inr m))"

definition backup_tick_data :: "market \<Rightarrow> string \<Rightarrow> py_error + market" where
  "backup_tick_data m pair =
     (case (base_24hr_volumes m pair, close_values m pair, close_times m pair) of
        (Some (volumes, derivs), Some values, Some tms) \<Rightarrow>
          Inr (m\<lparr>base_24hr_volumes_backup :=
                   (base_24hr_volumes_backup m)(pair \<mapsto> last_n volumes (min_tick_length m)),
                 close_values_backup :=
                   (close_values_backup m)(pair \<mapsto> last_n values (min_tick_length m)),
                 close_times_backup :=
                   (close_times_backup m)(pair \<mapsto> last_n tms (min_tick_length m))\<rparr>)
      | _ \<Rightarrow> Inl KeyError)"

text \<open>
  The \<^verbatim>\<open>try\<close> block of \<^verbatim>\<open>update_tick_data\<close>: restore the missing ticks, schedule a
  back-refresh when some were interpolated, append the new observation, truncate, back up.
  The market is returned beside the outcome because an exception keeps what was appended.
\<close>

definition append_tick ::
  "config \<Rightarrow> market \<Rightarrow> real \<Rightarrow> real \<Rightarrow> string \<Rightarrow> real \<Rightarrow> int \<Rightarrow> real \<Rightarrow> real \<Rightarrow>
   market \<times> (py_error + unit)" where
  "append_tick cfg m now rnd pair close_time tick_gap close_value base_24hr_volume =
     (case restore_ticks cfg m pair tick_gap close_value base_24hr_volume of
        (m1, Inl e) \<Rightarrow> (m1, Inl e)
      | (m1, Inr interpolated) \<Rightarrow>
          (case (if interpolated \<noteq> 0 then schedule_back_refresh cfg m1 now rnd pair tick_gap
                 else Inr m1) of
             Inl e \<Rightarrow> (m1, Inl e)
           | Inr m2 \<Rightarrow>
               (case (close_times m2 pair, close_values m2 pair, base_24hr_volumes m2 pair) of
                  (Some tms, Some values, Some (volumes, derivs)) \<Rightarrow>
                    (let m3 = m2\<lparr>close_times := (close_times m2)(pair \<mapsto> tms @ [close_time]),
                                 close_values := (close_values m2)(pair \<mapsto> values @ [close_value]),
                                 base_24hr_volumes := (base_24hr_volumes m2)
                                    (pair \<mapsto> (volumes @ [base_24hr_volume], derivs)),
                                 last_update_nums := (last_update_nums m2)(pair \<mapsto> tick_gap + 1)\<rparr>
                     in case truncate_tick_data m3 pair of
                          Inl e \<Rightarrow> (m3, Inl e)
                        | Inr m4 \<Rightarrow>
                            (case backup_tick_data m4 pair of
                               Inl e \<Rightarrow> (m4, Inl e)
                             | Inr m5 \<Rightarrow> (m5, Inr ())))
                | _ \<Rightarrow> (m2, Inl KeyError))))"

text \<open>
  \<^verbatim>\<open>Market.update_tick_data\<close>. \<open>last_values\<close> is what \<^verbatim>\<open>api.get_last_values\<close> returns
  (\<open>None\<close> for its \<^verbatim>\<open>(None, None)\<close>). The result is the pair name on success and
  \<open>None\<close> otherwise; \<^verbatim>\<open>KeyError\<close>, \<^verbatim>\<open>IndexError\<close> and \<^verbatim>\<open>TypeError\<close> of the
  \<^verbatim>\<open>try\<close> block are caught there.
\<close>

definition update_tick_data ::
  "config \<Rightarrow> market \<Rightarrow> real \<Rightarrow> real \<Rightarrow> (real \<times> real) option \<Rightarrow> string \<Rightarrow>
   py_error + market \<times> string option" where
  "update_tick_data cfg m now rnd last_values pair =
     (let m0 = m\<lparr>last_update_nums := (last_update_nums m)(pair \<mapsto> 0)\<rparr> in
      case get_tick_delta cfg m0 now pair of
        Inl e \<Rightarrow> Inl e
      | Inr None \<Rightarrow> Inr (m0, None)
      | Inr (Some (close_time, tick_gap)) \<Rightarrow>
          if tick_gap > tick_gap_max cfg then
            (let m1 = m0\<lparr>pairs := remove1 pair (pairs m0)\<rparr>;
                 m2 = (if pair \<notin> dom (greylist_pairs m1)
                       then m1\<lparr>greylist_pairs :=
                                 (greylist_pairs m1)(pair \<mapsto> now + pairs_greylist_secs cfg)\<rparr>
                       else m1)
             in Inr (m2, None))
          else
            (case last_values of
               None \<Rightarrow> Inr (m0, None)
             | Some (close_value, base_24hr_volume) \<Rightarrow>
                 (case append_tick cfg m0 now rnd pair close_time tick_gap close_value
                         base_24hr_volume of
                    (m', Inr u) \<Rightarrow> Inr (m', Some pair)
                  | (m', Inl e) \<Rightarrow>
                      if e \<in> {KeyError, IndexError, TypeError} then Inr (m', None)
                      else Inl e)))"

text \<open>
  The density property of a series of tick tms: neighbours differ by exactly one
  interval.
\<close>

fun dense :: "nat \<Rightarrow> real list \<Rightarrow> bool" where
  "dense interval [] = True"
| "dense interval [t] = True"
| "dense interval (t # u # rest) = (u - t = real interval \<and> dense interval (u # rest))"

section \<open>Pair change filter (core/market.py)\<close>

text \<open>
  \<^verbatim>\<open>Market.apply_pair_change_filter\<close>: returns whether the pair is filtered out, and
  records the clamped running delta of the pair in \<open>last_pairs\<close>.
\<close>

definition apply_pair_change_filter ::
  "config \<Rightarrow> market \<Rightarrow> string \<Rightarrow> real \<Rightarrow> real \<Rightarrow> market \<times> bool" where
  "apply_pair_change_filter cfg m pair change val =
     (if \<not> pair_change_filter cfg then (m, False)
      else if \<not> pair_dip_filter cfg then (m, change < pair_change_min cfg)
      else
        (let change_min = pair_change_min cfg;
             change_max = pair_change_min cfg;
             change_dip = pair_change_dip cfg;
             change_cutoff = pair_change_cutoff cfg;
             (change_delta, filtered) =
               (case last_pairs m pair of
                  Some lp \<Rightarrow>
                    (let change_delta = lp_delta lp + change;
                         filtered = lp_filtered lp
                     in if filtered then
                          (if change_delta < - change_dip then (- change_dip, filtered)
                           else if change_delta \<ge> change_min
                             then (if change_delta > change_max then change_max else change_delta,
                                   False)
                           else (change_delta, filtered))
                        else
                          (if change_delta \<le> - change_cutoff
                             then (if change_delta < - change_dip then - change_dip
                                   else change_delta, True)
                           else if change_delta > change_max then (change_max, filtered)
                           else (change_delta, filtered)))
                | None \<Rightarrow>
                    (if change \<ge> change_min
                       then (if change > change_max then change_max else change, False)
                     else (if change < - change_dip then - change_dip else change, True)))
         in (m\<lparr>last_pairs := (last_pairs m)(pair \<mapsto>
                  \<lparr>lp_value = val, lp_change = change, lp_delta = change_delta,
                    lp_filtered = filtered\<rparr>)\<rparr>, filtered)))"

text \<open>Successive calls for one pair, collecting the results in call order.\<close>

fun filter_run :: "config \<Rightarrow> market \<Rightarrow> string \<Rightarrow> (real \<times> real) list \<Rightarrow> bool list" where
  "filter_run cfg m pair [] = []"
| "filter_run cfg m pair ((change, val) # rest) =
     (case apply_pair_change_filter cfg m pair change val of
        (m', filtered) \<Rightarrow> filtered # filter_run cfg m' pair rest)"

section \<open>Detection triggers (core/detector.py)\<close>

text \<open>
  A condition trigger as built by \<^verbatim>\<open>_get_detection_trigger\<close>: the tick time, the
  \<^verbatim>\<open>set\<close> flag and the metadata lists collected from the rules of the condition.
\<close>

record trigger =
  tr_time :: real
  tr_set :: nat
  ma_values :: "real list"
  ma_distances :: "real list"
  ma_norm_distances :: "real list"
  ma_positions :: "nat list"
  vdma_values :: "real list"
  vdma_positions :: "nat list"
  vdma_y_positions :: "nat list"
  ma_curves :: "real list"
  ma_slopes :: "real list"
  newly_added :: "bool list"
  startup_added :: "bool list"

text \<open>One key of a rule's metadata dictionary with its list.\<close>

datatype meta_item =
    Ma_values "real list" | Ma_distances "real list" | Ma_norm_distances "real list"
  | Ma_positions "nat list" | Vdma_values "real list" | Vdma_positions "nat list"
  | Vdma_y_positions "nat list" | Ma_curves "real list" | Ma_slopes "real list"
  | Newly_added "bool list" | Startup_added "bool list"

text \<open>\<^verbatim>\<open>trigger[key].extend(meta[key])\<close>.\<close>

fun extend_trigger :: "meta_item \<Rightarrow> trigger \<Rightarrow> trigger" where
  "extend_trigger (Ma_values xs) t = t\<lparr>ma_values := ma_values t @ xs\<rparr>"
| "extend_trigger (Ma_distances xs) t = t\<lparr>ma_distances := ma_distances t @ xs\<rparr>"
| "extend_trigger (Ma_norm_distances xs) t = t\<lparr>ma_norm_distances := ma_norm_distances t @ xs\<rparr>"
| "extend_trigger (Ma_positions xs) t = t\<lparr>ma_positions := ma_positions t @ xs\<rparr>"
| "extend_trigger (Vdma_values xs) t = t\<lparr>vdma_values := vdma_values t @ xs\<rparr>"
| "extend_trigger (Vdma_positions xs) t = t\<lparr>vdma_positions := vdma_positions t @ xs\<rparr>"
| "extend_trigger (Vdma_y_positions xs) t = t\<lparr>vdma_y_positions := vdma_y_positions t @ xs\<rparr>"
| "extend_trigger (Ma_curves xs) t = t\<lparr>ma_curves := ma_curves t @ xs\<rparr>"
| "extend_trigger (Ma_slopes xs) t = t\<lparr>ma_slopes := ma_slopes t @ xs\<rparr>"
| "extend_trigger (Newly_added xs) t = t\<lparr>newly_added := newly_added t @ xs\<rparr>"
| "extend_trigger (Startup_added xs) t = t\<lparr>startup_added := startup_added t @ xs\<rparr>"

text \<open>
  What a check method hands back to \<^verbatim>\<open>_get_detection_trigger\<close>: a state (\<open>None\<close> for an
  invalid rule) with metadata, or a \<^verbatim>\<open>KeyError\<close>/\<^verbatim>\<open>IndexError\<close> that makes the caller
  ignore the rule.
\<close>

datatype check_result = Raised | Result "nat option" "meta_item list"

record last_detection =
  ld_type :: "string option"
  ld_orig_name :: "string option"
  ld_name :: string
  ld_count :: nat
  ld_value :: real
  ld_ma_value :: real
  ld_time :: real

text \<open>
  The attributes of \<^verbatim>\<open>Detector\<close>. \<open>detection_triggers\<close> maps a pair to its ordered
  dictionary from detection name to the list of condition triggers. The dictionaries
  that the \<^verbatim>\<open>_prepare_*\<close> methods fill for every pair and detection are total
  functions. \<open>dispatched\<close> records each action handed to \<^verbatim>\<open>action_methods\<close> as pair,
  detection name and action name; \<open>alerts\<close> records the alerts sent by the filters.
  \<open>log_level\<close> is the level of the detector's logger \<^verbatim>\<open>self.log\<close>, a \<^verbatim>\<open>ChildLogger\<close>
  that takes the level of the logger it is given (\<^verbatim>\<open>NOTSET\<close>, 0, for the default
  \<^verbatim>\<open>DummyLogger\<close>).
\<close>

record detector =
  detection_triggers :: "string \<rightharpoonup> (string \<times> trigger list) list"
  occurrences :: "string \<Rightarrow> string \<Rightarrow> nat"
  detection_counts :: "string \<Rightarrow> string \<Rightarrow> nat"
  last_update_time :: "string \<Rightarrow> real"
  last_detections :: "string \<Rightarrow> (string \<rightharpoonup> last_detection)"
  rsi_descending :: "string \<Rightarrow> bool"
  dispatched :: "(string \<times> string \<times> string) list"
  alerts :: "(string \<times> string \<times> string) list"
  log_level :: nat

text \<open>What the detector reads of \<^verbatim>\<open>Trader\<close>: the last trades by type and the open trades.\<close>

record trader =
  last_trades :: "string \<rightharpoonup> (string \<rightharpoonup> real option \<times> real option)"
  trades :: "string \<rightharpoonup> real \<times> bool"

text \<open>Sequencing of fallible steps: the first exception ends the computation.\<close>

definition and_then :: "py_error + 'a \<Rightarrow> ('a \<Rightarrow> py_error + 'b) \<Rightarrow> py_error + 'b" where
  "and_then r f = (case r of Inl e \<Rightarrow> Inl e | Inr x \<Rightarrow> f x)"

text \<open>\<^verbatim>\<open>self.market.close_times[pair][-1]\<close> and \<^verbatim>\<open>self.market.adjusted_close_values[pair][-1]\<close>.\<close>

definition current_tick_time :: "market \<Rightarrow> string \<Rightarrow> py_error + real" where
  "current_tick_time m pair =
     (case close_times m pair of None \<Rightarrow> Inl KeyError | Some tms \<Rightarrow> from_end tms 1)"

definition current_adjusted_value :: "market \<Rightarrow> string \<Rightarrow> py_error + real" where
  "current_adjusted_value m pair =
     (case adjusted_close_values m pair of None \<Rightarrow> Inl KeyError | Some vs \<Rightarrow> from_end vs 1)"

text \<open>\<^verbatim>\<open>self.detection_triggers[pair][detection_name][condition_index]\<close>.\<close>

definition stored_trigger :: "detector \<Rightarrow> string \<Rightarrow> string \<Rightarrow> nat \<Rightarrow> trigger option" where
  "stored_trigger det pair detection_name condition_index =
     (case detection_triggers det pair of
        None \<Rightarrow> None
      | Some by_name \<Rightarrow>
          (case map_of by_name detection_name of
             None \<Rightarrow> None
           | Some triggers \<Rightarrow>
               if condition_index < length triggers then Some (triggers ! condition_index)
               else None))"

text \<open>\<^verbatim>\<open>self.detection_triggers[pair][detection_name]\<close>.\<close>

definition stored_trigger_list :: "detector \<Rightarrow> string \<Rightarrow> string \<Rightarrow> trigger list option" where
  "stored_trigger_list det pair detection_name =
     (case detection_triggers det pair of
        None \<Rightarrow> None
      | Some by_name \<Rightarrow> map_of by_name detection_name)"

text \<open>\<^verbatim>\<open>math.isclose(a, b)\<close> with its default tolerances.\<close>

definition py_isclose :: "real \<Rightarrow> real \<Rightarrow> bool" where
  "py_isclose a b = (a = b \<or> \<bar>a - b\<bar> \<le> max (max \<bar>a\<bar> \<bar>b\<bar> / 10 ^ 9) 0)"

text \<open>
  \<^verbatim>\<open>Detector._check_ma_crossover\<close>, after the lookup in the rule cache. The windows come
  from \<^verbatim>\<open>config['ma_windows']\<close> or \<^verbatim>\<open>config['ema_windows']\<close>; an index out of range
  gives the invalid result, a pair or window without an array raises \<^verbatim>\<open>KeyError\<close>, and
  arrays that are too short or near zero at the previous tick give state 0 with the
  placeholder metadata. The previous position is the first entry of \<open>ma_positions\<close> of
  the trigger stored for this detection and condition.
\<close>

definition ma_crossover_fresh ::
  "config \<Rightarrow> market \<Rightarrow> detector \<Rightarrow> string \<Rightarrow> ma_kind \<Rightarrow> nat \<Rightarrow> nat \<Rightarrow> nat \<Rightarrow> string \<Rightarrow>
   check_result \<times> bool" where
  "ma_crossover_fresh cfg m det pair kind a b condition_index detection_name =
     (let windows = (case kind of EMA \<Rightarrow> ema_windows cfg | MA \<Rightarrow> ma_windows cfg);
          mas = (case kind of EMA \<Rightarrow> close_value_emas m | MA \<Rightarrow> close_value_mas m)
      in if length windows \<le> a \<or> length windows \<le> b then (Result None [], False)
         else
           (case mas pair of
              None \<Rightarrow> (Raised, False)
            | Some by_window \<Rightarrow>
                (case (by_window (windows ! a), by_window (windows ! b)) of
                   (Some first_ma, Some second_ma) \<Rightarrow>
                     (case (from_end first_ma 2, from_end second_ma 2) of
                        (Inr f2, Inr s2) \<Rightarrow>
                          if py_isclose f2 0 \<or> py_isclose s2 0
                          then (Result (Some 0) [Ma_values [0], Ma_positions [0]], False)
                          else
                            (let f1 = last first_ma; s1 = last second_ma in
                             if f1 < s1
                             then (Result (Some 0) [Ma_values [f1, s1], Ma_positions [0]], True)
                             else
                               (let ma_crossover =
                                  (case stored_trigger det pair detection_name condition_index of
                                     None \<Rightarrow> 0
                                   | Some trigger \<Rightarrow>
                                       (case ma_positions trigger of
                                          [] \<Rightarrow> 0
                                        | p # ps \<Rightarrow> if p = 0 then 1 else 0))
                                in (Result (Some ma_crossover)
                                      [Ma_values [f1, s1], Ma_positions [1]], True)))
                      | _ \<Rightarrow> (Result (Some 0) [Ma_values [0], Ma_positions [0]], False))
                 | _ \<Rightarrow> (Raised, False))))"

text \<open>
  The rule cache of one pair, \<^verbatim>\<open>self.cache[pair]['rule']\<close>, keyed by the rule tuple. The
  second component of \<open>ma_crossover_fresh\<close> says whether the result is stored.
\<close>

type_synonym rule_cache = "rule \<rightharpoonup> check_result"

definition check_ma_crossover ::
  "config \<Rightarrow> market \<Rightarrow> detector \<Rightarrow> rule_cache \<Rightarrow> string \<Rightarrow> ma_kind \<Rightarrow> nat \<Rightarrow> nat \<Rightarrow> nat \<Rightarrow>
   string \<Rightarrow> check_result \<times> rule_cache" where
  "check_ma_crossover cfg m det cache pair kind a b condition_index detection_name =
     (case cache (Ma_crossover kind a b) of
        Some cached \<Rightarrow> (cached, cache)
      | None \<Rightarrow>
          (case ma_crossover_fresh cfg m det pair kind a b condition_index detection_name of
             (result, store) \<Rightarrow>
               (result, if store then cache(Ma_crossover kind a b \<mapsto> result) else cache)))"

text \<open>
  The dispatch through \<^verbatim>\<open>check_methods\<close>. \<open>other\<close> gives, for a rule kind that is not
  modelled, the outcome of its check method in this cycle for the detection and
  condition at hand.
\<close>

fun check_rule ::
  "config \<Rightarrow> market \<Rightarrow> (string \<Rightarrow> string \<Rightarrow> nat \<Rightarrow> check_result) \<Rightarrow> detector \<Rightarrow> rule_cache \<Rightarrow>
   string \<Rightarrow> rule \<Rightarrow> nat \<Rightarrow> string \<Rightarrow> check_result \<times> rule_cache" where
  "check_rule cfg m other det cache pair (Ma_crossover kind a b) condition_index detection_name =
     check_ma_crossover cfg m det cache pair kind a b condition_index detection_name"
| "check_rule cfg m other det cache pair (Other_rule name) condition_index detection_name =
     (other name detection_name condition_index, cache)"

text \<open>
  The loop over the rules of a condition in \<^verbatim>\<open>_get_detection_trigger\<close>: the states that
  are not \<^verbatim>\<open>None\<close> are collected and their metadata appended to the trigger.
\<close>

fun check_rules ::
  "config \<Rightarrow> market \<Rightarrow> (string \<Rightarrow> string \<Rightarrow> nat \<Rightarrow> check_result) \<Rightarrow> detector \<Rightarrow> string \<Rightarrow>
   nat \<Rightarrow> string \<Rightarrow> rule list \<Rightarrow> trigger \<times> nat list \<times> rule_cache \<Rightarrow>
   trigger \<times> nat list \<times> rule_cache" where
  "check_rules cfg m other det pair condition_index detection_name [] acc = acc"
| "check_rules cfg m other det pair condition_index detection_name (r # rs) acc =
     (case acc of (trigger, states, cache) \<Rightarrow>
        (case check_rule cfg m other det cache pair r condition_index detection_name of
           (Raised, cache') \<Rightarrow>
             check_rules cfg m other det pair condition_index detection_name rs
               (trigger, states, cache')
         | (Result None meta, cache') \<Rightarrow>
             check_rules cfg m other det pair condition_index detection_name rs
               (trigger, states, cache')
         | (Result (Some state) meta, cache') \<Rightarrow>
             check_rules cfg m other det pair condition_index detection_name rs
               (fold extend_trigger meta trigger, states @ [state], cache')))"

definition empty_trigger :: "real \<Rightarrow> trigger" where
  "empty_trigger t =
     \<lparr>tr_time = t, tr_set = 0, ma_values = [], ma_distances = [], ma_norm_distances = [],
      ma_positions = [], vdma_values = [], vdma_positions = [], vdma_y_positions = [],
      ma_curves = [], ma_slopes = [], newly_added = [], startup_added = []\<rparr>"

text \<open>\<^verbatim>\<open>Detector._get_detection_trigger\<close>.\<close>

definition get_detection_trigger ::
  "config \<Rightarrow> market \<Rightarrow> (string \<Rightarrow> string \<Rightarrow> nat \<Rightarrow> check_result) \<Rightarrow> detector \<Rightarrow> rule_cache \<Rightarrow>
   string \<Rightarrow> string \<Rightarrow> nat \<Rightarrow> py_error + trigger \<times> rule_cache" where
  "get_detection_trigger cfg m other det cache pair detection_name condition_index =
     and_then (current_tick_time m pair) (\<lambda>t.
       (case map_of (detections cfg) detection_name of
          None \<Rightarrow> Inl KeyError
        | Some detection \<Rightarrow>
            if length (conditions detection) \<le> condition_index then Inl IndexError
            else
              (case check_rules cfg m other det pair condition_index detection_name
                      (conditions detection ! condition_index) (empty_trigger t, [], cache) of
                 (trigger, states, cache') \<Rightarrow>
                   Inr (trigger\<lparr>tr_set := (if sum_list states = length states then 1 else 0)\<rparr>,
                        cache'))))"

text \<open>
  The body of the loop over condition indexes in \<^verbatim>\<open>update_detection_triggers\<close>: a
  stored trigger that is set is kept, and only its time is replaced when the condition
  tests set again; otherwise the freshly built trigger is taken.
\<close>

definition update_condition ::
  "config \<Rightarrow> market \<Rightarrow> (string \<Rightarrow> string \<Rightarrow> nat \<Rightarrow> check_result) \<Rightarrow> detector \<Rightarrow> rule_cache \<Rightarrow>
   string \<Rightarrow> string \<Rightarrow> nat \<Rightarrow> py_error + trigger \<times> rule_cache" where
  "update_condition cfg m other det cache pair detection_name condition_index =
     (case stored_trigger det pair detection_name condition_index of
        Some old_trigger \<Rightarrow>
          if tr_set old_trigger \<noteq> 0 then
            and_then (get_detection_trigger cfg m other det cache pair detection_name
                        condition_index)
              (\<lambda>(test_trigger, cache').
                 Inr (if tr_set test_trigger \<noteq> 0
                      then old_trigger\<lparr>tr_time := tr_time test_trigger\<rparr>
                      else old_trigger, cache'))
          else get_detection_trigger cfg m other det cache pair detection_name condition_index
      | None \<Rightarrow> get_detection_trigger cfg m other det cache pair detection_name condition_index)"

fun update_conditions ::
  "config \<Rightarrow> market \<Rightarrow> (string \<Rightarrow> string \<Rightarrow> nat \<Rightarrow> check_result) \<Rightarrow> detector \<Rightarrow> string \<Rightarrow>
   string \<Rightarrow> nat list \<Rightarrow> trigger list \<times> rule_cache \<Rightarrow>
   py_error + trigger list \<times> rule_cache" where
  "update_conditions cfg m other det pair detection_name [] acc = Inr acc"
| "update_conditions cfg m other det pair detection_name (condition_index # rest) acc =
     (case acc of (triggers, cache) \<Rightarrow>
        and_then (update_condition cfg m other det cache pair detection_name condition_index)
          (\<lambda>(trigger, cache').
             update_conditions cfg m other det pair detection_name rest
               (triggers @ [trigger], cache')))"

text \<open>The loop over \<^verbatim>\<open>config['detections'].items()\<close>.\<close>

fun update_detections ::
  "config \<Rightarrow> market \<Rightarrow> (string \<Rightarrow> string \<Rightarrow> nat \<Rightarrow> check_result) \<Rightarrow> detector \<Rightarrow> string \<Rightarrow>
   (string \<times> detection) list \<Rightarrow> (string \<times> trigger list) list \<times> rule_cache \<Rightarrow>
   py_error + (string \<times> trigger list) list \<times> rule_cache" where
  "update_detections cfg m other det pair [] acc = Inr acc"
| "update_detections cfg m other det pair ((detection_name, detection) # rest) acc =
     (case acc of (by_name, cache) \<Rightarrow>
        and_then (update_conditions cfg m other det pair detection_name
                    [0..<length (conditions detection)] ([], cache))
          (\<lambda>(triggers, cache').
             update_detections cfg m other det pair rest
               (AList.update detection_name triggers by_name, cache')))"

text \<open>
  \<^verbatim>\<open>Detector.update_detection_triggers\<close>: the rule cache starts empty, every condition
  of every detection is updated against the triggers stored before the call, and the
  new dictionary replaces the pair's entry.
\<close>

definition update_detection_triggers ::
  "config \<Rightarrow> market \<Rightarrow> (string \<Rightarrow> string \<Rightarrow> nat \<Rightarrow> check_result) \<Rightarrow> detector \<Rightarrow> string \<Rightarrow>
   py_error + detector" where
  "update_detection_triggers cfg m other det pair =
     and_then (update_detections cfg m other det pair (detections cfg) ([], Map.empty))
       (\<lambda>(by_name, cache).
          and_then (current_tick_time m pair) (\<lambda>t.
            Inr (det\<lparr>last_update_time := (last_update_time det)(pair := t),
                     detection_triggers := (detection_triggers det)(pair \<mapsto> by_name)\<rparr>)))"

section \<open>Detection processing (core/detector.py)\<close>

text \<open>An entry appended to \<^verbatim>\<open>trigger_data['followed']\<close> (without its display string).\<close>

record followed =
  fo_name :: string
  fo_time :: real
  fo_delta :: real

text \<open>
  The aggregate built by \<^verbatim>\<open>_aggregate_trigger_data\<close> and extended by the later steps;
  the keys added later are \<open>None\<close> (or empty) until then.
\<close>

record trigger_data =
  set_triggers :: "nat list"
  td_times :: "real list"
  td_ma_values :: "real list"
  td_ma_distances :: "real list"
  td_ma_norm_distances :: "real list"
  td_ma_curves :: "real list"
  td_ma_slopes :: "real list"
  td_newly_added :: "bool list"
  td_startup_added :: "bool list"
  td_followed :: "followed list"
  td_ma_norm_values :: "real list"
  td_current_time :: "real option"
  td_time_frame :: "real option"
  td_value_range :: "real option"

text \<open>
  \<^verbatim>\<open>get_detection_params\<close>: a detection that is not configured yields the default of
  every parameter.
\<close>

definition default_detection :: detection where
  "default_detection =
     \<lparr>conditions = [], d_action = None, d_occurrence = None, d_groups = None, d_type = None,
      time_frame_min = None, time_frame_max = None, value_range_min = None,
      value_range_max = None, distance_range = None, max_consecutive = None, overlap = None,
      follow = None, follow_all = None, follow_trade = None\<rparr>"

definition get_detection_params :: "config \<Rightarrow> string \<Rightarrow> detection" where
  "get_detection_params cfg detection_name =
     (case map_of (detections cfg) detection_name of None \<Rightarrow> default_detection | Some d \<Rightarrow> d)"

definition param_action :: "detection \<Rightarrow> string" where
  "param_action d = (case d_action d of None \<Rightarrow> ''alert'' | Some a \<Rightarrow> a)"

definition param_occurrence :: "detection \<Rightarrow> nat" where
  "param_occurrence d = (case d_occurrence d of None \<Rightarrow> 1 | Some n \<Rightarrow> n)"

definition param_groups :: "detection \<Rightarrow> string list" where
  "param_groups d = (case d_groups d of None \<Rightarrow> [''default''] | Some gs \<Rightarrow> gs)"

definition param_type :: "detection \<Rightarrow> string" where
  "param_type d = (case d_type d of None \<Rightarrow> ''default'' | Some t \<Rightarrow> t)"

text \<open>Truth of an optional number in a Python condition: neither \<^verbatim>\<open>None\<close> nor zero.\<close>

definition truthy :: "real option \<Rightarrow> bool" where
  "truthy x = (case x of None \<Rightarrow> False | Some v \<Rightarrow> v \<noteq> 0)"

text \<open>\<^verbatim>\<open>max(xs)\<close> and \<^verbatim>\<open>min(xs)\<close>, which raise \<^verbatim>\<open>ValueError\<close> on an empty list.\<close>

definition py_max :: "real list \<Rightarrow> py_error + real" where
  "py_max xs = (case xs of [] \<Rightarrow> Inl ValueError | x # rest \<Rightarrow> Inr (fold max rest x))"

definition py_min :: "real list \<Rightarrow> py_error + real" where
  "py_min xs = (case xs of [] \<Rightarrow> Inl ValueError | x # rest \<Rightarrow> Inr (fold min rest x))"

text \<open>
  \<^verbatim>\<open>Detector._timeout_triggers\<close>: with a \<^verbatim>\<open>time_frame_max\<close>, every trigger older than
  it relative to the current tick gets \<^verbatim>\<open>set = 0\<close>. The triggers are changed in place,
  so the result is what the pair's dictionary holds afterwards.
\<close>

definition timeout_triggers ::
  "market \<Rightarrow> string \<Rightarrow> detection \<Rightarrow> trigger list \<Rightarrow> py_error + trigger list" where
  "timeout_triggers m pair params triggers =
     (case time_frame_max params of
        None \<Rightarrow> Inr triggers
      | Some mx \<Rightarrow>
          and_then (current_tick_time m pair) (\<lambda>current_time.
            Inr (map (\<lambda>trigger. if current_time - tr_time trigger > mx
                                then trigger\<lparr>tr_set := 0\<rparr> else trigger) triggers)))"

text \<open>\<^verbatim>\<open>Detector._aggregate_trigger_data\<close> and \<^verbatim>\<open>Detector._normalize_trigger_values\<close>.\<close>

definition aggregate_trigger_data :: "trigger list \<Rightarrow> trigger_data" where
  "aggregate_trigger_data triggers =
     \<lparr>set_triggers = map tr_set triggers,
      td_times = map tr_time triggers,
      td_ma_values = concat (map ma_values triggers),
      td_ma_distances = concat (map ma_distances triggers),
      td_ma_norm_distances = concat (map ma_norm_distances triggers),
      td_ma_curves = concat (map ma_curves triggers),
      td_ma_slopes = concat (map ma_slopes triggers),
      td_newly_added = concat (map newly_added triggers),
      td_startup_added = concat (map startup_added triggers),
      td_followed = [], td_ma_norm_values = [], td_current_time = None,
      td_time_frame = None, td_value_range = None\<rparr>"

definition normalize_trigger_values :: "trigger_data \<Rightarrow> trigger_data" where
  "normalize_trigger_values td =
     (let ma_values_max0 = (case py_max (td_ma_values td) of Inl e \<Rightarrow> 1 | Inr v \<Rightarrow> v);
          ma_values_max = (if ma_values_max0 = 0 then 1 else ma_values_max0)
      in td\<lparr>td_ma_norm_values := map (\<lambda>v. v / ma_values_max) (td_ma_values td)\<rparr>)"

text \<open>\<^verbatim>\<open>Detector._set_triggers_time_frame\<close>.\<close>

definition set_triggers_time_frame :: "trigger list \<Rightarrow> trigger_data \<Rightarrow> trigger_data" where
  "set_triggers_time_frame triggers td =
     (case (py_max (map tr_time triggers), py_min (map tr_time triggers)) of
        (Inr hi, Inr lo) \<Rightarrow> td\<lparr>td_time_frame := Some (hi - lo)\<rparr>
      | _ \<Rightarrow> td)"

text \<open>\<^verbatim>\<open>self.detection_triggers[pair][detection_name] = triggers\<close>.\<close>

definition store_triggers ::
  "detector \<Rightarrow> string \<Rightarrow> string \<Rightarrow> trigger list \<Rightarrow> py_error + detector" where
  "store_triggers det pair detection_name triggers =
     (case detection_triggers det pair of
        None \<Rightarrow> Inl KeyError
      | Some by_name \<Rightarrow>
          Inr (det\<lparr>detection_triggers :=
                    (detection_triggers det)(pair \<mapsto>
                       AList.update detection_name triggers by_name)\<rparr>))"

text \<open>
  The update of one group's record in \<^verbatim>\<open>_update_detection_stats\<close>: the same detection
  again counts up; another one, or none before, starts a new record.
\<close>

definition update_last_detection ::
  "string \<Rightarrow> string option \<Rightarrow> string \<Rightarrow> real \<Rightarrow> real \<Rightarrow> real \<Rightarrow> last_detection option \<Rightarrow>
   last_detection" where
  "update_last_detection detection_name detection_type ptype val ma_value current_time old =
     (let reset = (\<lambda>ld.
            (if ld_type ld \<noteq> Some ptype
             then ld\<lparr>ld_orig_name := Some detection_name,
                     ld_type := Some (case detection_type of
                                        None \<Rightarrow> ptype
                                      | Some t \<Rightarrow> if t = [] then ptype else t)\<rparr>
             else ld)
            \<lparr>ld_name := detection_name, ld_count := 1, ld_value := val,
             ld_ma_value := ma_value, ld_time := current_time\<rparr>)
      in case old of
           Some ld \<Rightarrow>
             if ld_name ld = detection_name
             then ld\<lparr>ld_count := ld_count ld + 1, ld_value := val, ld_ma_value := ma_value,
                     ld_time := current_time\<rparr>
             else reset ld
         | None \<Rightarrow>
             reset \<lparr>ld_type = None, ld_orig_name = None, ld_name = [], ld_count = 0,
                    ld_value = 0, ld_ma_value = 0, ld_time = 0\<rparr>)"

text \<open>The assignment of the updated record to \<^verbatim>\<open>self.last_detections[pair][group]\<close>.\<close>

definition record_detection ::
  "string \<Rightarrow> string \<Rightarrow> string option \<Rightarrow> string \<Rightarrow> real \<Rightarrow> real \<Rightarrow> real \<Rightarrow> string \<Rightarrow>
   detector \<Rightarrow> detector" where
  "record_detection pair detection_name detection_type ptype val ma_value current_time grp d =
     d\<lparr>last_detections := (last_detections d)
          (pair := (last_detections d pair)
             (grp \<mapsto> update_last_detection detection_name detection_type ptype val ma_value
                          current_time (last_detections d pair grp)))\<rparr>"

text \<open>\<^verbatim>\<open>Detector._update_detection_stats\<close>.\<close>

definition update_detection_stats ::
  "config \<Rightarrow> market \<Rightarrow> detector \<Rightarrow> string \<Rightarrow> string \<Rightarrow> string option \<Rightarrow> py_error + detector" where
  "update_detection_stats cfg m det pair detection_name detection_type =
     (let det1 = det\<lparr>detection_counts := (detection_counts det)
                      (pair := (detection_counts det pair)
                         (detection_name := detection_counts det pair detection_name + 1))\<rparr>;
          params = get_detection_params cfg detection_name
      in and_then (current_tick_time m pair) (\<lambda>current_time.
         and_then (current_adjusted_value m pair) (\<lambda>last_value.
           (let ma_value = (case stored_trigger det1 pair detection_name 0 of
                              None \<Rightarrow> last_value
                            | Some trigger \<Rightarrow>
                                (case ma_values trigger of [] \<Rightarrow> last_value | v # vs \<Rightarrow> v))
            in Inr (fold (record_detection pair detection_name detection_type
                            (param_type params) last_value ma_value current_time)
                      (param_groups params) det1)))))"

subsection \<open>The filters\<close>

text \<open>
  Every filter takes the detector and the aggregate and returns whether it vetoes,
  with the detector and the aggregate as it leaves them.
\<close>

type_synonym filter_state = "detector \<times> trigger_data"

text \<open>\<^verbatim>\<open>Detector._detection_filter_values\<close>.\<close>

definition detection_filter_values ::
  "detection \<Rightarrow> filter_state \<Rightarrow> py_error + bool \<times> filter_state" where
  "detection_filter_values params st =
     (case st of (det, td) \<Rightarrow>
        if sum_list (set_triggers td) \<le> 1 then Inr (False, det, td)
        else
          (case (py_max (td_ma_norm_values td), py_min (td_ma_norm_values td)) of
             (Inr hi, Inr lo) \<Rightarrow>
               (let value_range = hi - lo;
                    td' = td\<lparr>td_value_range := Some value_range\<rparr>
                in if truthy (value_range_max params) \<and>
                      value_range \<ge> the (value_range_max params) then Inr (True, det, td')
                   else if truthy (value_range_min params) \<and>
                      value_range < the (value_range_min params) then Inr (True, det, td')
                   else Inr (False, det, td'))
           | _ \<Rightarrow> Inr (False, det, td)))"

text \<open>\<^verbatim>\<open>Detector._detection_filter_time_frame\<close>.\<close>

definition detection_filter_time_frame ::
  "detection \<Rightarrow> filter_state \<Rightarrow> py_error + bool \<times> filter_state" where
  "detection_filter_time_frame params st =
     (case st of (det, td) \<Rightarrow>
        if sum_list (set_triggers td) \<le> 1 then Inr (False, det, td)
        else if truthy (time_frame_min params) then
          (case td_time_frame td of
             None \<Rightarrow> Inl KeyError
           | Some time_frame \<Rightarrow> Inr (time_frame < the (time_frame_min params), det, td))
        else Inr (False, det, td))"

text \<open>\<^verbatim>\<open>Detector._detection_filter_distances\<close>.\<close>

definition detection_filter_distances ::
  "detection \<Rightarrow> filter_state \<Rightarrow> py_error + bool \<times> filter_state" where
  "detection_filter_distances params st =
     (case st of (det, td) \<Rightarrow>
        if sum_list (set_triggers td) \<le> 1 then Inr (False, det, td)
        else if truthy (distance_range params) then
          and_then (py_max (td_ma_norm_distances td)) (\<lambda>hi.
          and_then (py_min (td_ma_norm_distances td)) (\<lambda>lo.
            Inr (hi - lo > the (distance_range params), det, td)))
        else Inr (False, det, td))"

text \<open>\<^verbatim>\<open>Detector._detection_filter_consecutive\<close>.\<close>

definition detection_filter_consecutive ::
  "string \<Rightarrow> detection \<Rightarrow> filter_state \<Rightarrow> py_error + bool \<times> filter_state" where
  "detection_filter_consecutive pair params st =
     (case st of (det, td) \<Rightarrow>
        (case param_groups params of
           [] \<Rightarrow> Inl IndexError
         | grp # gs \<Rightarrow>
             (case last_detections det pair grp of
                None \<Rightarrow> Inr (False, det, td)
              | Some ld \<Rightarrow>
                  (case max_consecutive params of
                     None \<Rightarrow> Inr (False, det, td)
                   | Some max_count \<Rightarrow>
                       Inr (max_count \<noteq> 0 \<and> ld_count ld > max_count, det, td)))))"

text \<open>
  \<^verbatim>\<open>Detector._filter_follow_rule_group\<close>: \<open>True\<close> when the rule fails for the group
  (the detection is filtered), \<open>False\<close> when it passes; a pass is recorded in
  \<^verbatim>\<open>followed\<close>.
\<close>

definition follow_secs :: "real option \<Rightarrow> real option option \<Rightarrow> real option" where
  "follow_secs dflt given = (case given of None \<Rightarrow> dflt | Some v \<Rightarrow> v)"

definition filter_follow_rule_group ::
  "config \<Rightarrow> market \<Rightarrow> detector \<Rightarrow> string \<Rightarrow> follow_rule \<Rightarrow> string \<Rightarrow> trigger_data \<Rightarrow>
   py_error + bool \<times> trigger_data" where
  "filter_follow_rule_group cfg m det pair rule grp td =
     and_then (current_adjusted_value m pair) (\<lambda>current_value.
     and_then (current_tick_time m pair) (\<lambda>current_time.
       if None \<in> set (fr_types rule) \<and> last_detections det pair grp = None
       then Inr (False, td)
       else
         (case last_detections det pair grp of
            None \<Rightarrow> Inr (True, td)
          | Some ld \<Rightarrow>
              if ld_type ld \<in> set (fr_types rule) then
                if current_value = 0 then Inl ZeroDivisionError
                else
                  (let last_time = ld_time ld;
                       follow_delta = 1 - ld_value ld / current_value;
                       follow_ma_delta = 1 - ld_ma_value ld / current_value;
                       min_secs = follow_secs (detection_min_follow_secs cfg) (fr_min_secs rule);
                       max_secs = follow_secs (detection_max_follow_secs cfg) (fr_max_secs rule)
                   in if min_secs \<noteq> None \<and> current_time < last_time + the min_secs
                        then Inr (True, td)
                      else if max_secs \<noteq> None \<and> current_time > last_time + the max_secs
                        then Inr (True, td)
                      else if fr_min_delta rule \<noteq> None \<and> follow_delta < the (fr_min_delta rule)
                        then Inr (True, td)
                      else if fr_max_delta rule \<noteq> None \<and> follow_delta \<ge> the (fr_max_delta rule)
                        then Inr (True, td)
                      else if fr_min_ma_delta rule \<noteq> None \<and>
                              follow_ma_delta < the (fr_min_ma_delta rule)
                        then Inr (True, td)
                      else if fr_max_ma_delta rule \<noteq> None \<and>
                              follow_ma_delta \<ge> the (fr_max_ma_delta rule)
                        then Inr (True, td)
                      else Inr (False, td\<lparr>td_followed := td_followed td @
                                  [\<lparr>fo_name = ld_name ld, fo_time = last_time,
                                    fo_delta = follow_delta\<rparr>]\<rparr>))
              else Inr (True, td))))"

text \<open>
  The inner loop over the groups of one follow-rule: it stops at the first group for
  which the rule passes and says whether there was one.
\<close>

fun follow_rule_passes ::
  "config \<Rightarrow> market \<Rightarrow> detector \<Rightarrow> string \<Rightarrow> follow_rule \<Rightarrow> string list \<Rightarrow> trigger_data \<Rightarrow>
   py_error + bool \<times> trigger_data" where
  "follow_rule_passes cfg m det pair rule [] td = Inr (False, td)"
| "follow_rule_passes cfg m det pair rule (grp # rest) td =
     and_then (filter_follow_rule_group cfg m det pair rule grp td) (\<lambda>(filtered, td').
       if \<not> filtered then Inr (True, td')
       else follow_rule_passes cfg m det pair rule rest td')"

text \<open>
  \<^verbatim>\<open>Detector._detection_filter_follow\<close>: the loops return \<^verbatim>\<open>False\<close> (not filtered) at
  the first rule and group that pass, and \<^verbatim>\<open>True\<close> when they run to the end.
\<close>

fun some_follow_rule_passes ::
  "config \<Rightarrow> market \<Rightarrow> detector \<Rightarrow> string \<Rightarrow> follow_rule list \<Rightarrow> trigger_data \<Rightarrow>
   py_error + bool \<times> trigger_data" where
  "some_follow_rule_passes cfg m det pair [] td = Inr (False, td)"
| "some_follow_rule_passes cfg m det pair (rule # rest) td =
     and_then (follow_rule_passes cfg m det pair rule (fr_groups rule) td) (\<lambda>(passed, td').
       if passed then Inr (True, td')
       else some_follow_rule_passes cfg m det pair rest td')"

definition detection_filter_follow ::
  "config \<Rightarrow> market \<Rightarrow> string \<Rightarrow> detection \<Rightarrow> filter_state \<Rightarrow> py_error + bool \<times> filter_state" where
  "detection_filter_follow cfg m pair params st =
     (case st of (det, td) \<Rightarrow>
        and_then (some_follow_rule_passes cfg m det pair
                    (case follow params of None \<Rightarrow> [] | Some rules \<Rightarrow> rules) td)
          (\<lambda>(passed, td'). Inr (\<not> passed, det, td')))"

text \<open>
  \<^verbatim>\<open>Detector._detection_filter_follow_all\<close>: counts the rules that pass for one of
  their groups and filters unless all of them do.
\<close>

fun count_follow_rules ::
  "config \<Rightarrow> market \<Rightarrow> detector \<Rightarrow> string \<Rightarrow> follow_rule list \<Rightarrow> nat \<times> trigger_data \<Rightarrow>
   py_error + nat \<times> trigger_data" where
  "count_follow_rules cfg m det pair [] acc = Inr acc"
| "count_follow_rules cfg m det pair (rule # rest) acc =
     (case acc of (num_passed, td) \<Rightarrow>
        and_then (follow_rule_passes cfg m det pair rule (fr_groups rule) td) (\<lambda>(passed, td').
          count_follow_rules cfg m det pair rest
            (if passed then num_passed + 1 else num_passed, td')))"

definition detection_filter_follow_all ::
  "config \<Rightarrow> market \<Rightarrow> string \<Rightarrow> detection \<Rightarrow> filter_state \<Rightarrow> py_error + bool \<times> filter_state" where
  "detection_filter_follow_all cfg m pair params st =
     (case st of (det, td) \<Rightarrow>
        (let rules = (case follow_all params of None \<Rightarrow> [] | Some rules \<Rightarrow> rules)
         in and_then (count_follow_rules cfg m det pair rules (0, td)) (\<lambda>(num_passed, td').
              Inr (num_passed \<noteq> length rules, det, td'))))"

text \<open>
  \<^verbatim>\<open>Detector._filter_follow_trade_rule\<close>: the loop over the trade types of a rule;
  \<open>False\<close> at the first type that passes every configured bound.
\<close>

fun filter_follow_trade_rule ::
  "config \<Rightarrow> trader \<Rightarrow> string \<Rightarrow> real \<Rightarrow> real \<Rightarrow> follow_rule \<Rightarrow> string option list \<Rightarrow>
   py_error + bool" where
  "filter_follow_trade_rule cfg tr pair current_value current_time rule [] = Inr True"
| "filter_follow_trade_rule cfg tr pair current_value current_time rule (follow_type # rest) =
     (case (case follow_type of
              None \<Rightarrow> None
            | Some ft \<Rightarrow> (case last_trades tr pair of None \<Rightarrow> None | Some by_type \<Rightarrow> by_type ft)) of
        None \<Rightarrow> Inl KeyError
      | Some (last_value, last_time) \<Rightarrow>
          if last_value \<noteq> None \<and> current_value = 0 then Inl ZeroDivisionError
          else
            (let follow_delta = map_option (\<lambda>v. 1 - v / current_value) last_value;
                 min_secs = follow_secs (detection_min_follow_secs cfg) (fr_min_secs rule);
                 max_secs = follow_secs (detection_max_follow_secs cfg) (fr_max_secs rule);
                 continue = filter_follow_trade_rule cfg tr pair current_value current_time
                              rule rest
             in if min_secs \<noteq> None \<and>
                   (last_time = None \<or> current_time < the last_time + the min_secs)
                  then continue
                else if max_secs \<noteq> None \<and>
                   (last_time = None \<or> current_time > the last_time + the max_secs)
                  then continue
                else if fr_min_delta rule \<noteq> None \<and>
                   (follow_delta = None \<or> the follow_delta < the (fr_min_delta rule))
                  then continue
                else if fr_max_delta rule \<noteq> None \<and>
                   (follow_delta = None \<or> the follow_delta \<ge> the (fr_max_delta rule))
                  then continue
                else Inr False))"

text \<open>\<^verbatim>\<open>Detector._detection_filter_follow_trade\<close>.\<close>

fun some_follow_trade_rule_passes ::
  "config \<Rightarrow> market \<Rightarrow> trader \<Rightarrow> string \<Rightarrow> follow_rule list \<Rightarrow> py_error + bool" where
  "some_follow_trade_rule_passes cfg m tr pair [] = Inr False"
| "some_follow_trade_rule_passes cfg m tr pair (rule # rest) =
     and_then (current_adjusted_value m pair) (\<lambda>current_value.
     and_then (current_tick_time m pair) (\<lambda>current_time.
     and_then (filter_follow_trade_rule cfg tr pair current_value current_time rule
                 (fr_types rule)) (\<lambda>filtered.
       if \<not> filtered then Inr True
       else some_follow_trade_rule_passes cfg m tr pair rest)))"

definition detection_filter_follow_trade ::
  "config \<Rightarrow> market \<Rightarrow> trader \<Rightarrow> string \<Rightarrow> detection \<Rightarrow> filter_state \<Rightarrow>
   py_error + bool \<times> filter_state" where
  "detection_filter_follow_trade cfg m tr pair params st =
     (case st of (det, td) \<Rightarrow>
        and_then (some_follow_trade_rule_passes cfg m tr pair
                    (case follow_trade params of None \<Rightarrow> [] | Some rules \<Rightarrow> rules))
          (\<lambda>passed. Inr (\<not> passed, det, td)))"

text \<open>\<^verbatim>\<open>Detector._detection_filter_overlap\<close>.\<close>

definition detection_filter_overlap ::
  "config \<Rightarrow> market \<Rightarrow> trader \<Rightarrow> string \<Rightarrow> string \<Rightarrow> detection \<Rightarrow> filter_state \<Rightarrow>
   py_error + bool \<times> filter_state" where
  "detection_filter_overlap cfg m tr pair detection_name params st =
     (case st of (det, td) \<Rightarrow>
        if d_action params \<notin> {Some ''buy'', Some ''rebuy''} then Inr (False, det, td)
        else
          and_then (current_tick_time m pair) (\<lambda>current_time.
            (case trades tr pair of
               None \<Rightarrow> Inl KeyError
             | Some (last_open_time, has_open_trades) \<Rightarrow>
                 if truthy (overlap params) \<and> has_open_trades \<and>
                    (current_time - last_open_time) / 60 < the (overlap params)
                 then
                   and_then (update_detection_stats cfg m det pair detection_name (Some ''skip''))
                     (\<lambda>det'. Inr (True,
                        det'\<lparr>alerts := alerts det' @ [(pair, detection_name, ''OVERLAP SKIP BUY'')]\<rparr>,
                        td))
                 else Inr (False, det, td))))"

text \<open>\<^verbatim>\<open>Detector._detection_filter_occurrence\<close>.\<close>

definition detection_filter_occurrence ::
  "config \<Rightarrow> market \<Rightarrow> string \<Rightarrow> string \<Rightarrow> detection \<Rightarrow> filter_state \<Rightarrow>
   py_error + bool \<times> filter_state" where
  "detection_filter_occurrence cfg m pair detection_name params st =
     (case st of (det, td) \<Rightarrow>
        (let n = occurrences det pair detection_name + 1;
             det1 = det\<lparr>occurrences := (occurrences det)
                         (pair := (occurrences det pair)(detection_name := n))\<rparr>
         in if n < param_occurrence params then
              and_then (update_detection_stats cfg m det1 pair detection_name (Some ''skip''))
                (\<lambda>det'. Inr (True, det', td))
            else Inr (False,
                      det1\<lparr>occurrences := (occurrences det1)
                             (pair := (occurrences det1 pair)(detection_name := 0))\<rparr>, td)))"

subsection \<open>The filter chain\<close>

text \<open>The keys of \<^verbatim>\<open>filter_methods\<close> in their order.\<close>

datatype filter_param =
    Value_range_min | Value_range_max | Time_frame_min | Distance_range | Max_consecutive
  | Follow | Follow_all | Follow_trade | Overlap | Occurrence

definition filter_methods :: "filter_param list" where
  "filter_methods =
     [Value_range_min, Value_range_max, Time_frame_min, Distance_range, Max_consecutive,
      Follow, Follow_all, Follow_trade, Overlap, Occurrence]"

text \<open>\<^verbatim>\<open>params[param] is not None\<close> for the parameters of \<^verbatim>\<open>_get_detection_process_params\<close>.\<close>

fun param_given :: "detection \<Rightarrow> filter_param \<Rightarrow> bool" where
  "param_given params Value_range_min = (value_range_min params \<noteq> None)"
| "param_given params Value_range_max = (value_range_max params \<noteq> None)"
| "param_given params Time_frame_min = (time_frame_min params \<noteq> None)"
| "param_given params Distance_range = (distance_range params \<noteq> None)"
| "param_given params Max_consecutive = (max_consecutive params \<noteq> None)"
| "param_given params Follow = (follow params \<noteq> None)"
| "param_given params Follow_all = (follow_all params \<noteq> None)"
| "param_given params Follow_trade = (follow_trade params \<noteq> None)"
| "param_given params Overlap = (overlap params \<noteq> None)"
| "param_given params Occurrence = True"

fun filter_method ::
  "config \<Rightarrow> market \<Rightarrow> trader \<Rightarrow> string \<Rightarrow> string \<Rightarrow> detection \<Rightarrow> filter_param \<Rightarrow>
   filter_state \<Rightarrow> py_error + bool \<times> filter_state" where
  "filter_method cfg m tr pair name params Value_range_min st = detection_filter_values params st"
| "filter_method cfg m tr pair name params Value_range_max st = detection_filter_values params st"
| "filter_method cfg m tr pair name params Time_frame_min st =
     detection_filter_time_frame params st"
| "filter_method cfg m tr pair name params Distance_range st =
     detection_filter_distances params st"
| "filter_method cfg m tr pair name params Max_consecutive st =
     detection_filter_consecutive pair params st"
| "filter_method cfg m tr pair name params Follow st = detection_filter_follow cfg m pair params st"
| "filter_method cfg m tr pair name params Follow_all st =
     detection_filter_follow_all cfg m pair params st"
| "filter_method cfg m tr pair name params Follow_trade st =
     detection_filter_follow_trade cfg m tr pair params st"
| "filter_method cfg m tr pair name params Overlap st =
     detection_filter_overlap cfg m tr pair name params st"
| "filter_method cfg m tr pair name params Occurrence st =
     detection_filter_occurrence cfg m pair name params st"

text \<open>
  The loop over \<^verbatim>\<open>filter_methods\<close> in \<^verbatim>\<open>_filter_detection\<close>: while the detection is
  still triggered every configured filter is asked; a veto empties the detection's
  trigger list and ends the loop at the next entry.
\<close>

fun run_filters ::
  "config \<Rightarrow> market \<Rightarrow> trader \<Rightarrow> string \<Rightarrow> string \<Rightarrow> detection \<Rightarrow> filter_param list \<Rightarrow>
   bool \<times> filter_state \<Rightarrow> py_error + bool \<times> filter_state" where
  "run_filters cfg m tr pair name params [] acc = Inr acc"
| "run_filters cfg m tr pair name params (param # rest) acc =
     (case acc of (triggered, st) \<Rightarrow>
        if triggered then
          if param_given params param then
            and_then (filter_method cfg m tr pair name params param st) (\<lambda>(vetoed, det', td').
              if vetoed then
                and_then (store_triggers det' pair name []) (\<lambda>det''.
                  run_filters cfg m tr pair name params rest (False, det'', td'))
              else run_filters cfg m tr pair name params rest (True, det', td'))
          else run_filters cfg m tr pair name params rest acc
        else Inr acc)"

text \<open>
  \<^verbatim>\<open>Detector._filter_detection\<close>: returns \<open>True\<close> when the detection is filtered out,
  which includes the case that not all of its triggers are set.
\<close>

definition filter_detection ::
  "config \<Rightarrow> market \<Rightarrow> trader \<Rightarrow> string \<Rightarrow> string \<Rightarrow> detection \<Rightarrow> trigger list \<Rightarrow>
   filter_state \<Rightarrow> py_error + bool \<times> filter_state" where
  "filter_detection cfg m tr pair name params triggers st =
     (case st of (det, td) \<Rightarrow>
        (let triggered = (sum_list (set_triggers td) = length (set_triggers td));
             td1 = (if triggered then set_triggers_time_frame triggers td else td)
         in and_then (run_filters cfg m tr pair name params filter_methods (triggered, det, td1))
              (\<lambda>(triggered', det', td').
                 if triggered' \<and> trade_use_indicators cfg \<and>
                    param_action params \<in> {''buy'', ''rebuy''} \<and>
                    enable_rsi cfg \<and> rsi_descending det' pair
                 then
                   and_then (store_triggers
                               (det'\<lparr>alerts := alerts det' @ [(pair, name, ''RSI SKIP BUY'')]\<rparr>)
                               pair name [])
                     (\<lambda>det''. Inr (True, det'', td'))
                 else Inr (\<not> triggered', det', td'))))"

subsection \<open>Processing the detections of a pair\<close>

text \<open>
  \<^verbatim>\<open>Detector._dispatch_detection_action\<close>: the action is handed to its method, which
  belongs to the trader or the reporter and runs as a task of its own; an unknown action
  name sends an alert instead.
\<close>

definition action_names :: "string list" where
  "action_names =
     [''none'', ''alert'', ''buy'', ''holdbuy'', ''rebuy'', ''sellpush'', ''pushrelease'',
      ''softsell'', ''hardsell'', ''dumpsell'', ''softstop'', ''hardstop'', ''stophold'',
      ''refillon'', ''refilloff'', ''buyon'', ''buyoff'', ''pullout'', ''reset'']"

definition dispatch_detection_action :: "detector \<Rightarrow> string \<Rightarrow> string \<Rightarrow> detection \<Rightarrow> detector" where
  "dispatch_detection_action det pair name params =
     (if param_action params \<in> set action_names
      then det\<lparr>dispatched := dispatched det @ [(pair, name, param_action params)]\<rparr>
      else det\<lparr>alerts := alerts det @ [(pair, name, [])]\<rparr>)"

text \<open>
  The flash-crash guard of \<^verbatim>\<open>process_detections\<close> as the source computes it: the
  quotient of the last two entries of \<^verbatim>\<open>close_times\<close>.
\<close>

definition value_diff_percent :: "market \<Rightarrow> string \<Rightarrow> py_error + real" where
  "value_diff_percent m pair =
     (case close_times m pair of
        None \<Rightarrow> Inl KeyError
      | Some tms \<Rightarrow>
          and_then (from_end tms 1) (\<lambda>t1.
          and_then (from_end tms 2) (\<lambda>t2.
            if t2 = 0 then Inl ZeroDivisionError else Inr (t1 / t2))))"

text \<open>
  \<^verbatim>\<open>self.log.warning\<close> called with a message that has one placeholder and no argument,
  as the flash-crash guard does. A \<^verbatim>\<open>ChildLogger\<close> whose level is at most \<^verbatim>\<open>WARNING\<close>
  (30) formats the message, and \<^verbatim>\<open>str.format\<close> raises \<^verbatim>\<open>IndexError\<close> for the missing
  argument; at a higher level the call does nothing.
\<close>

definition log_warning_unformatted :: "detector \<Rightarrow> py_error + unit" where
  "log_warning_unformatted det = (if log_level det \<le> 30 then Inl IndexError else Inr ())"

text \<open>
  The body of the loop of \<^verbatim>\<open>process_detections\<close> for one detection name and the
  trigger list found for it.
\<close>

definition process_detection ::
  "config \<Rightarrow> market \<Rightarrow> trader \<Rightarrow> detector \<Rightarrow> string \<Rightarrow> string \<Rightarrow> trigger list \<Rightarrow>
   py_error + detector" where
  "process_detection cfg m tr det pair name triggers =
     (let params = get_detection_params cfg name in
      and_then (timeout_triggers m pair params triggers) (\<lambda>triggers'.
      and_then (store_triggers det pair name triggers') (\<lambda>det1.
      and_then (current_tick_time m pair) (\<lambda>current_time.
        (let td = (normalize_trigger_values (aggregate_trigger_data triggers'))
                    \<lparr>td_current_time := Some current_time\<rparr>
         in and_then (filter_detection cfg m tr pair name params triggers' (det1, td))
              (\<lambda>(filtered, det2, td').
                 if filtered then Inr det2
                 else
                   and_then (value_diff_percent m pair) (\<lambda>ratio.
                     if ratio \<le> detection_flash_crash_sens cfg
                     then and_then (log_warning_unformatted det2) (\<lambda>u. Inr det2)
                     else
                       and_then (update_detection_stats cfg m
                                   (dispatch_detection_action det2 pair name params)
                                   pair name None)
                         (\<lambda>det3. store_triggers det3 pair name []))))))))"

text \<open>The loop over the items of the pair's trigger dictionary.\<close>

fun process_names ::
  "config \<Rightarrow> market \<Rightarrow> trader \<Rightarrow> string \<Rightarrow> string list \<Rightarrow> detector \<Rightarrow> py_error + detector" where
  "process_names cfg m tr pair [] det = Inr det"
| "process_names cfg m tr pair (name # rest) det =
     (case stored_trigger_list det pair name of
        None \<Rightarrow> Inl KeyError
      | Some triggers \<Rightarrow>
          and_then (process_detection cfg m tr det pair name triggers)
            (process_names cfg m tr pair rest))"

text \<open>\<^verbatim>\<open>Detector.process_detections\<close>.\<close>

definition process_detections ::
  "config \<Rightarrow> market \<Rightarrow> trader \<Rightarrow> detector \<Rightarrow> string \<Rightarrow> py_error + detector" where
  "process_detections cfg m tr det pair =
     (case detection_triggers det pair of
        None \<Rightarrow> Inl KeyError
      | Some by_name \<Rightarrow> process_names cfg m tr pair (map fst by_name) det)"

text \<open>What the filter loop leaves: nothing changed, or the detection's list emptied.\<close>

definition cleared :: "detector \<Rightarrow> string \<Rightarrow> string \<Rightarrow> detector \<Rightarrow> bool" where
  "cleared det pair name det' \<longleftrightarrow>
     (\<exists>by_name. detection_triggers det pair = Some by_name \<and>
        detection_triggers det' =
          (detection_triggers det)(pair \<mapsto> AList.update name [] by_name))"

text \<open>A dispatched action of a detection whose triggers were all set and are now empty.\<close>

definition fired_and_cleared ::
  "config \<Rightarrow> market \<Rightarrow> detector \<Rightarrow> detector \<Rightarrow> string \<Rightarrow> string \<times> string \<times> string \<Rightarrow> bool" where
  "fired_and_cleared cfg m det det' pair e =
     (case e of (p, name, act) \<Rightarrow>
        p = pair \<and> act = param_action (get_detection_params cfg name) \<and>
        stored_trigger_list det' pair name = Some [] \<and>
        (\<exists>ts0 ts. stored_trigger_list det pair name = Some ts0 \<and>
           timeout_triggers m pair (get_detection_params cfg name) ts0 = Inr ts \<and>
           sum_list (map tr_set ts) = length ts))"

text \<open>
  Whether a follow-rule fails for a group, that is, whether
  \<^verbatim>\<open>_filter_follow_rule_group\<close> returns \<^verbatim>\<open>True\<close>; the aggregate it is given has no
  influence on that.
\<close>

definition follow_rule_group_fails ::
  "config \<Rightarrow> market \<Rightarrow> detector \<Rightarrow> string \<Rightarrow> follow_rule \<Rightarrow> string \<Rightarrow> bool" where
  "follow_rule_group_fails cfg m det pair rule grp =
     (map_sum id fst (filter_follow_rule_group cfg m det pair rule grp (aggregate_trigger_data []))
        = Inr True)"

section \<open>Crossover rule over several cycles\<close>

text \<open>
  The first entry of \<open>ma_positions\<close> of the trigger stored for a detection and
  condition, which is what \<open>check_ma_crossover\<close> takes for the previous position.
\<close>

definition stored_position :: "detector \<Rightarrow> string \<Rightarrow> string \<Rightarrow> nat \<Rightarrow> nat option" where
  "stored_position det pair detection_name condition_index =
     (case stored_trigger det pair detection_name condition_index of
        None \<Rightarrow> None
      | Some trigger \<Rightarrow> (case ma_positions trigger of [] \<Rightarrow> None | p # ps \<Rightarrow> Some p))"

text \<open>
  The current values of the two moving averages of a crossover rule, if the rule's
  window indexes are valid, both arrays exist and hold at least two values, and neither
  value at the previous tick is close to zero.
\<close>

definition ma_ready ::
  "config \<Rightarrow> market \<Rightarrow> string \<Rightarrow> ma_kind \<Rightarrow> nat \<Rightarrow> nat \<Rightarrow> (real \<times> real) option" where
  "ma_ready cfg m pair kind a b =
     (let windows = (case kind of EMA \<Rightarrow> ema_windows cfg | MA \<Rightarrow> ma_windows cfg);
          mas = (case kind of EMA \<Rightarrow> close_value_emas m | MA \<Rightarrow> close_value_mas m)
      in if a < length windows \<and> b < length windows then
           (case mas pair of
              None \<Rightarrow> None
            | Some by_window \<Rightarrow>
                (case (by_window (windows ! a), by_window (windows ! b)) of
                   (Some first_ma, Some second_ma) \<Rightarrow>
                     if 2 \<le> length first_ma \<and> 2 \<le> length second_ma \<and>
                        \<not> py_isclose (first_ma ! (length first_ma - 2)) 0 \<and>
                        \<not> py_isclose (second_ma ! (length second_ma - 2)) 0
                     then Some (last first_ma, last second_ma) else None
                 | _ \<Rightarrow> None))
         else None)"

definition result_state :: "check_result \<Rightarrow> nat option" where
  "result_state r = (case r of Raised \<Rightarrow> None | Result state meta \<Rightarrow> state)"

text \<open>
  One tick cycle of a pair as the application runs it (cryptowatcher.py): the triggers
  are updated, then the detections are processed. The indicator states, which the
  application refreshes in between when RSI is enabled, are taken as they are.
\<close>

definition detection_cycle ::
  "config \<Rightarrow> market \<Rightarrow> (string \<Rightarrow> string \<Rightarrow> nat \<Rightarrow> check_result) \<Rightarrow> trader \<Rightarrow> detector \<Rightarrow> string \<Rightarrow>
   py_error + detector" where
  "detection_cycle cfg m other tr det pair =
     and_then (update_detection_triggers cfg m other det pair) (\<lambda>det1.
       process_detections cfg m tr det1 pair)"

text \<open>
  The states that a crossover rule of a detection and condition returns over a run of
  cycles, one market per cycle: the state the rule returns against the triggers stored
  at the start of the cycle and an empty rule cache.
\<close>

fun crossover_states ::
  "config \<Rightarrow> (string \<Rightarrow> string \<Rightarrow> nat \<Rightarrow> check_result) \<Rightarrow> trader \<Rightarrow> string \<Rightarrow> string \<Rightarrow> nat \<Rightarrow>
   ma_kind \<Rightarrow> nat \<Rightarrow> nat \<Rightarrow> market list \<Rightarrow> detector \<Rightarrow> py_error + nat option list" where
  "crossover_states cfg other tr pair name ci kind a b [] det = Inr []"
| "crossover_states cfg other tr pair name ci kind a b (m # ms) det =
     and_then (detection_cycle cfg m other tr det pair) (\<lambda>det'.
     and_then (crossover_states cfg other tr pair name ci kind a b ms det') (\<lambda>states.
       Inr (result_state (fst (check_ma_crossover cfg m det Map.empty pair kind a b ci name))
            # states)))"

section \<open>Example inputs\<close>

text \<open>
  A configuration with a one-minute tick and the hysteresis thresholds
  \<open>pair_change_min = 0.01\<close>, \<open>pair_change_dip = 0.02\<close>; the cutoff is left open.
\<close>

definition example_config :: "real \<Rightarrow> config" where
  "example_config cutoff =
     \<lparr>tick_interval_secs = 60, tick_gap_max = 60, pairs_greylist_secs = 600,
      back_refresh_min_secs = 300, pair_change_filter = True, pair_dip_filter = True,
      pair_change_min = 1 / 100, pair_change_dip = 2 / 100, pair_change_cutoff = cutoff,
      ma_windows = [5, 13], ema_windows = [], detections = [],
      detection_min_follow_secs = Some 180, detection_max_follow_secs = Some 28800,
      detection_flash_crash_sens = 1 / 2, trade_use_indicators = False, enable_rsi = False\<rparr>"

text \<open>
  A market that tracks \<^verbatim>\<open>BTC-ETH\<close> with one stored tick at time 0 of value 0, no backup
  and no pair seen yet by the change filter.
\<close>

definition example_market :: market where
  "example_market =
     \<lparr>close_times = [''BTC-ETH'' \<mapsto> [0]], close_values = [''BTC-ETH'' \<mapsto> [0]],
      base_24hr_volumes = [''BTC-ETH'' \<mapsto> ([5], [])],
      close_times_backup = Map.empty, close_values_backup = Map.empty,
      base_24hr_volumes_backup = Map.empty, adjusted_close_values = Map.empty,
      close_value_mas = Map.empty, close_value_emas = Map.empty,
      last_update_nums = Map.empty, pairs = [''BTC-ETH''], greylist_pairs = Map.empty,
      back_refreshes = [], last_pairs = Map.empty, min_tick_length = 10\<rparr>"

text \<open>
  A detection of one condition list with an action and an occurrence threshold, a
  configuration holding given detections, a market whose last two ticks are at 600 and
  660 with the close value falling from 10 to 4, a trigger that is set, a detector that
  holds given triggers for \<^verbatim>\<open>BTC-ETH\<close> and has recorded nothing yet, and a trader
  without trades.
\<close>

definition example_detection :: "string \<Rightarrow> nat \<Rightarrow> rule list list \<Rightarrow> detection" where
  "example_detection act occ conds =
     default_detection\<lparr>conditions := conds, d_action := Some act, d_occurrence := Some occ\<rparr>"

definition detector_config :: "(string \<times> detection) list \<Rightarrow> config" where
  "detector_config ds = (example_config (1 / 80))\<lparr>detections := ds\<rparr>"

definition ticking_market :: market where
  "ticking_market =
     example_market\<lparr>close_times := [''BTC-ETH'' \<mapsto> [600, 660]],
                    close_values := [''BTC-ETH'' \<mapsto> [10, 4]],
                    adjusted_close_values := [''BTC-ETH'' \<mapsto> [10, 4]]\<rparr>"

definition set_trigger :: "real \<Rightarrow> trigger" where
  "set_trigger t = (empty_trigger t)\<lparr>tr_set := 1\<rparr>"

definition example_detector :: "(string \<times> trigger list) list \<Rightarrow> detector" where
  "example_detector by_name =
     \<lparr>detection_triggers = [''BTC-ETH'' \<mapsto> by_name],
      occurrences = (\<lambda>pair name. 0), detection_counts = (\<lambda>pair name. 0),
      last_update_time = (\<lambda>pair. 0), last_detections = (\<lambda>pair. Map.empty),
      rsi_descending = (\<lambda>pair. False), dispatched = [], alerts = [], log_level = 0\<rparr>"

definition example_trader :: trader where
  "example_trader = \<lparr>last_trades = Map.empty, trades = [''BTC-ETH'' \<mapsto> (0, False)]\<rparr>"

text \<open>The rule outcomes of a cycle in which every rule that is not modelled fails.\<close>

definition rules_fail :: "string \<Rightarrow> string \<Rightarrow> nat \<Rightarrow> check_result" where
  "rules_fail rule_name detection_name condition_index = Result (Some 0) []"

text \<open>
  A follow-rule on one group and type without bounds, a record of an earlier detection,
  a detector that has recorded one for group \<^verbatim>\<open>g1\<close> only, and a detection that
  follows \<^verbatim>\<open>g1\<close> and \<^verbatim>\<open>g2\<close>.
\<close>

definition follow_rule_for :: "string \<Rightarrow> string \<Rightarrow> follow_rule" where
  "follow_rule_for grp ty =
     \<lparr>fr_groups = [grp], fr_types = [Some ty], fr_min_delta = None, fr_max_delta = None,
      fr_min_ma_delta = None, fr_max_ma_delta = None, fr_min_secs = Some None,
      fr_max_secs = Some None\<rparr>"

definition example_last_detection :: "string \<Rightarrow> last_detection" where
  "example_last_detection ty =
     \<lparr>ld_type = Some ty, ld_orig_name = Some ''d0'', ld_name = ''d0'', ld_count = 1,
      ld_value = 4, ld_ma_value = 4, ld_time = 600\<rparr>"

definition following_detector :: detector where
  "following_detector =
     (example_detector [(''d1'', [set_trigger 660])])
       \<lparr>last_detections := (\<lambda>pair. [''g1'' \<mapsto> example_last_detection ''init0''])\<rparr>"

definition following_detection :: detection where
  "following_detection =
     (example_detection ''buy'' 1 [[Other_rule ''ready'']])
       \<lparr>follow := Some [follow_rule_for ''g1'' ''init0'', follow_rule_for ''g2'' ''init1'']\<rparr>"

text \<open>
  A market whose two moving averages (windows 5 and 13) end in given values, a
  configuration whose detection has the crossover rule in its first condition and a rule
  that never passes in its second, and one whose detection has the crossover rule alone.
\<close>

definition ma_market :: "real \<Rightarrow> real \<Rightarrow> market" where
  "ma_market f s =
     ticking_market\<lparr>close_value_mas := [''BTC-ETH'' \<mapsto> [5 \<mapsto> [1, f], 13 \<mapsto> [1, s]]]\<rparr>"

definition crossing_config :: config where
  "crossing_config =
     detector_config
       [(''d1'', example_detection ''alert'' 1 [[Ma_crossover MA 0 1], [Other_rule ''never'']])]"

definition single_crossing_config :: config where
  "single_crossing_config =
     detector_config [(''d1'', example_detection ''alert'' 1 [[Ma_crossover MA 0 1]])]"

text \<open>What a tick update leaves in the pair's time and value arrays.\<close>

definition stored_ticks_after ::
  "config \<Rightarrow> market \<Rightarrow> real \<Rightarrow> real \<Rightarrow> (real \<times> real) option \<Rightarrow> string \<Rightarrow>
   py_error + string option \<times> real list option \<times> real list option" where
  "stored_ticks_after cfg m now rnd last_values pair =
     (case update_tick_data cfg m now rnd last_values pair of
        Inl e \<Rightarrow> Inl e
      | Inr (m', r) \<Rightarrow> Inr (r, close_times m' pair, close_values m' pair))"

section \<open>Properties of the moving averages\<close>













section \<open>Properties of the tick update\<close>

text \<open>
  Claim C1. The claim is that the stored times stay dense after a tick update, also when
  the observation arrives two or more intervals late. The code does not do this:
  \<open>get_tick_delta\<close> returns \<open>delta_seconds div interval\<close> as the gap, which counts the
  current tick as missing, so \<open>restore_ticks\<close> already appends the current boundary and
  \<open>update_tick_data\<close> appends it again. With one stored tick at time 0, a one-minute
  interval and a call at time 125 the stored times become 0, 60, 120, 120.
\<close>

theorem update_duplicates_current_tick:
  "stored_ticks_after (example_config (1 / 80)) example_market 125 0 (Some (12, 5)) ''BTC-ETH''
     = Inr (Some ''BTC-ETH'', Some [0, 60, 120, 120], Some [0, 4, 6, 12]) \<and>
   \<not> dense 60 [0, 60, 120, 120]"
  by (simp add: stored_ticks_after_def update_tick_data_def get_tick_delta_def example_config_def
      example_market_def from_end_def py_fmod_def py_int_def append_tick_def restore_ticks_def
      restore_tick_def backup_lookup_def store_ticks_def schedule_back_refresh_def
      truncate_tick_data_def backup_tick_data_def last_n_def upto_rec1 Let_def)

text \<open>
  Claim C8. The claim is that \<open>n\<close> missing ticks not found in the backup are filled with
  the values on the straight line from the last value to the new one. The loop of
  \<open>restore_ticks\<close> adds each step to the value read before the loop, which is never
  advanced, while the divisor \<open>num - index + 1\<close> shrinks as if it were; and the gap it is
  given counts the current tick as missing (see C1). With last value 0 and new value 12
  two intervals late, the ticks at 60 and 120 get 3 and 4 instead of 4 and 8; restoring
  two ticks directly gives 4 and 6.
\<close>

theorem restore_not_linear:
  "stored_ticks_after (example_config (1 / 80)) example_market 185 0 (Some (12, 5)) ''BTC-ETH''
     = Inr (Some ''BTC-ETH'', Some [0, 60, 120, 180, 180], Some [0, 3, 4, 6, 12]) \<and>
   close_values (fst (restore_ticks (example_config (1 / 80)) example_market ''BTC-ETH'' 2 12 5))
     ''BTC-ETH'' = Some [0, 4, 6]"
  by (simp add: stored_ticks_after_def update_tick_data_def get_tick_delta_def example_config_def
      example_market_def from_end_def py_fmod_def py_int_def append_tick_def restore_ticks_def
      restore_tick_def backup_lookup_def store_ticks_def schedule_back_refresh_def
      truncate_tick_data_def backup_tick_data_def last_n_def upto_rec1 Let_def)

section \<open>Properties of the pair change filter\<close>

lemma change_filter_thresholds:
  assumes "pair_change_filter cfg" and "pair_dip_filter cfg"
  shows "(last_pairs m pair = None \<longrightarrow>
            snd (apply_pair_change_filter cfg m pair change v) = (change < pair_change_min cfg)) \<and>
         (\<forall>lp. last_pairs m pair = Some lp \<and> \<not> lp_filtered lp \<longrightarrow>
            snd (apply_pair_change_filter cfg m pair change v)
              = (lp_delta lp + change \<le> - pair_change_cutoff cfg)) \<and>
         (\<forall>lp. last_pairs m pair = Some lp \<and> lp_filtered lp \<longrightarrow>
            snd (apply_pair_change_filter cfg m pair change v)
              = (lp_delta lp + change < - pair_change_dip cfg \<or>
                 lp_delta lp + change < pair_change_min cfg))"
  using assms by (auto simp add: apply_pair_change_filter_def Let_def)

text \<open>
  Claim C7. The claim is that, with \<open>pair_change_min = 0.01\<close> and
  \<open>pair_change_dip = 0.02\<close>, a pair that entered at 0.015 stays included while its running
  delta is above \<open>- 0.02\<close>, for example at \<open>- 0.019\<close>; the docstring of
  \<^verbatim>\<open>apply_pair_change_filter\<close> says the same: the pair is allowed to fall by
  \<^verbatim>\<open>pair_change_dip\<close> before being filtered out. The code drops an included pair as soon
  as the running delta is at most \<open>- pair_change_cutoff\<close>, another setting, and uses
  \<open>pair_change_dip\<close> only to bound the stored delta from below. With the cutoff 0.0125
  the pair entering at 0.015 (stored as 0.01) and then changing by \<open>- 0.029\<close> is dropped
  at the running delta \<open>- 0.019\<close>.
\<close>

theorem dip_filter_drops_at_cutoff:
  "pair_change_min (example_config (1 / 80)) = 1 / 100 \<and>
   pair_change_dip (example_config (1 / 80)) = 2 / 100 \<and>
   pair_dip_filter (example_config (1 / 80)) \<and>
   filter_run (example_config (1 / 80)) example_market ''BTC-ETH''
     [(15 / 1000, 1), (- 29 / 1000, 1)] = [False, True]"
  by (simp add: example_config_def example_market_def apply_pair_change_filter_def Let_def)

section \<open>Properties of detection processing\<close>

text \<open>The equations that evaluate detection processing on the example inputs.\<close>

lemmas detector_defs =
  process_detections_def process_detection_def filter_detection_def filter_methods_def
  detection_filter_occurrence_def update_detection_stats_def record_detection_def
  update_last_detection_def dispatch_detection_action_def action_names_def
  value_diff_percent_def timeout_triggers_def store_triggers_def stored_trigger_list_def
  stored_trigger_def aggregate_trigger_data_def normalize_trigger_values_def
  set_triggers_time_frame_def get_detection_params_def param_action_def param_occurrence_def
  param_groups_def param_type_def py_max_def py_min_def and_then_def current_tick_time_def
  current_adjusted_value_def from_end_def default_detection_def log_warning_unformatted_def

lemmas example_defs =
  example_detection_def detector_config_def ticking_market_def set_trigger_def
  example_detector_def example_trader_def example_config_def example_market_def
  empty_trigger_def

text \<open>No filter writes the trigger dictionary or the dispatch record.\<close>

lemma and_then_Inr:
  "and_then r f = Inr y \<longleftrightarrow> (\<exists>x. r = Inr x \<and> f x = Inr y)"
  by (cases r) (simp_all add: and_then_def)

lemma fold_record_detection_frame:
  "detection_triggers (fold (record_detection pair name ty pt v mv t) gs det) = detection_triggers det \<and>
   dispatched (fold (record_detection pair name ty pt v mv t) gs det) = dispatched det"
  by (induction gs arbitrary: det) (simp_all add: record_detection_def)

lemma update_detection_stats_frame:
  assumes "update_detection_stats cfg m det pair name ty = Inr det'"
  shows "detection_triggers det' = detection_triggers det \<and> dispatched det' = dispatched det"
  using assms unfolding update_detection_stats_def Let_def and_then_Inr
  by (auto simp: fold_record_detection_frame)

lemma filter_values_frame:
  "detection_filter_values params (det, td) = Inr (v, det', td') \<Longrightarrow> det' = det"
  by (auto simp: detection_filter_values_def Let_def split: if_splits sum.splits)

lemma filter_time_frame_frame:
  "detection_filter_time_frame params (det, td) = Inr (v, det', td') \<Longrightarrow> det' = det"
  by (auto simp: detection_filter_time_frame_def split: if_splits option.splits)

lemma filter_distances_frame:
  "detection_filter_distances params (det, td) = Inr (v, det', td') \<Longrightarrow> det' = det"
  by (auto simp: detection_filter_distances_def and_then_Inr split: if_splits)

lemma filter_consecutive_frame:
  "detection_filter_consecutive pair params (det, td) = Inr (v, det', td') \<Longrightarrow> det' = det"
  by (auto simp: detection_filter_consecutive_def split: list.splits option.splits)

lemma filter_follow_frame:
  "detection_filter_follow cfg m pair params (det, td) = Inr (v, det', td') \<Longrightarrow> det' = det"
  by (auto simp: detection_filter_follow_def and_then_Inr)

lemma filter_follow_all_frame:
  "detection_filter_follow_all cfg m pair params (det, td) = Inr (v, det', td') \<Longrightarrow> det' = det"
  by (auto simp: detection_filter_follow_all_def Let_def and_then_Inr)

lemma filter_follow_trade_frame:
  "detection_filter_follow_trade cfg m tr pair params (det, td) = Inr (v, det', td') \<Longrightarrow> det' = det"
  by (auto simp: detection_filter_follow_trade_def and_then_Inr)

lemma filter_overlap_frame:
  assumes "detection_filter_overlap cfg m tr pair name params (det, td) = Inr (v, det', td')"
  shows "detection_triggers det' = detection_triggers det \<and> dispatched det' = dispatched det"
proof (cases "d_action params \<notin> {Some ''buy'', Some ''rebuy''}")
  case True
  with assms show ?thesis by (simp add: detection_filter_overlap_def)
next
  case False
  with assms obtain current_time last_open_time has_open_trades where
    t: "trades tr pair = Some (last_open_time, has_open_trades)"
    and r: "(if truthy (overlap params) \<and> has_open_trades \<and>
                (current_time - last_open_time) / 60 < the (overlap params)
             then and_then (update_detection_stats cfg m det pair name (Some ''skip''))
                    (\<lambda>det'. Inr (True,
                       det'\<lparr>alerts := alerts det' @ [(pair, name, ''OVERLAP SKIP BUY'')]\<rparr>, td))
             else Inr (False, det, td)) = Inr (v, det', td')"
    by (auto simp: detection_filter_overlap_def and_then_Inr split: option.splits)
  show ?thesis
  proof (cases "truthy (overlap params) \<and> has_open_trades \<and>
                (current_time - last_open_time) / 60 < the (overlap params)")
    case True
    from r have "and_then (update_detection_stats cfg m det pair name (Some ''skip''))
                    (\<lambda>det'. Inr (True,
                       det'\<lparr>alerts := alerts det' @ [(pair, name, ''OVERLAP SKIP BUY'')]\<rparr>, td))
                 = (Inr (v, det', td') :: py_error + bool \<times> filter_state)"
      by (simp only: if_P [OF True])
    then obtain d1 where
      "update_detection_stats cfg m det pair name (Some ''skip'') = Inr d1"
      "det' = d1\<lparr>alerts := alerts d1 @ [(pair, name, ''OVERLAP SKIP BUY'')]\<rparr>"
      by (auto simp: and_then_Inr)
    with update_detection_stats_frame [of cfg m det pair name "Some ''skip''" d1]
    show ?thesis by simp
  next
    case False
    from r have "(Inr (False, det, td) :: py_error + bool \<times> filter_state) = Inr (v, det', td')"
      by (simp only: if_not_P [OF False])
    then show ?thesis by simp
  qed
qed

lemma filter_occurrence_frame:
  assumes "detection_filter_occurrence cfg m pair name params (det, td) = Inr (v, det', td')"
  shows "detection_triggers det' = detection_triggers det \<and> dispatched det' = dispatched det"
proof -
  define det1 where "det1 = det\<lparr>occurrences := (occurrences det)
                         (pair := (occurrences det pair)
                            (name := occurrences det pair name + 1))\<rparr>"
  have f1: "detection_triggers det1 = detection_triggers det" "dispatched det1 = dispatched det"
    by (simp_all add: det1_def)
  show ?thesis
  proof (cases "occurrences det pair name + 1 < param_occurrence params")
    case True
    with assms have "and_then (update_detection_stats cfg m det1 pair name (Some ''skip''))
                       (\<lambda>det'. Inr (True, det', td)) = Inr (v, det', td')"
      by (simp add: detection_filter_occurrence_def Let_def det1_def)
    then have "update_detection_stats cfg m det1 pair name (Some ''skip'') = Inr det'"
      by (auto simp: and_then_Inr)
    from update_detection_stats_frame [OF this] f1 show ?thesis by simp
  next
    case False
    with assms show ?thesis
      by (auto simp: detection_filter_occurrence_def Let_def)
  qed
qed

lemma filter_method_frame:
  assumes "filter_method cfg m tr pair name params param (det, td) = Inr (vetoed, det', td')"
  shows "detection_triggers det' = detection_triggers det \<and> dispatched det' = dispatched det"
  using assms
  by (cases param)
     (auto dest: filter_values_frame filter_time_frame_frame filter_distances_frame
        filter_consecutive_frame filter_follow_frame filter_follow_all_frame
        filter_follow_trade_frame filter_overlap_frame filter_occurrence_frame)

lemma store_triggers_Inr:
  "store_triggers det pair name ts = Inr det' \<longleftrightarrow>
     (\<exists>by_name. detection_triggers det pair = Some by_name \<and>
        det' = det\<lparr>detection_triggers :=
                 (detection_triggers det)(pair \<mapsto> AList.update name ts by_name)\<rparr>)"
  by (auto simp: store_triggers_def split: option.splits)

lemma store_triggers_lookup:
  assumes "store_triggers det pair name ts = Inr det'"
  shows "stored_trigger_list det' pair name = Some ts"
    and "n \<noteq> name \<Longrightarrow> stored_trigger_list det' pair n = stored_trigger_list det pair n"
    and "p \<noteq> pair \<Longrightarrow> detection_triggers det' p = detection_triggers det p"
    and "dispatched det' = dispatched det"
  using assms
  by (auto simp: store_triggers_Inr stored_trigger_list_def update_conv')

lemma run_filters_effect:
  assumes "run_filters cfg m tr pair name params ps (triggered, det, td) = Inr (triggered', det', td')"
  shows "dispatched det' = dispatched det \<and> (triggered' \<longrightarrow> triggered) \<and>
         (if triggered \<and> \<not> triggered' then cleared det pair name det'
          else detection_triggers det' = detection_triggers det)"
  using assms
proof (induction ps arbitrary: triggered det td)
  case Nil
  then show ?case by auto
next
  case (Cons param rest)
  show ?case
  proof (cases "triggered \<and> param_given params param")
    case False
    with Cons show ?thesis by (auto split: if_splits)
  next
    case True
    with Cons.prems obtain vetoed d1 td1 where
      f: "filter_method cfg m tr pair name params param (det, td) = Inr (vetoed, d1, td1)"
      and k: "(if vetoed then
                and_then (store_triggers d1 pair name []) (\<lambda>det''.
                  run_filters cfg m tr pair name params rest (False, det'', td1))
              else run_filters cfg m tr pair name params rest (True, d1, td1))
             = Inr (triggered', det', td')"
      by (auto simp: and_then_Inr)
    note fr = filter_method_frame [OF f]
    show ?thesis
    proof (cases vetoed)
      case False
      with k have "run_filters cfg m tr pair name params rest (True, d1, td1)
                   = Inr (triggered', det', td')" by simp
      from Cons.IH [OF this] fr True show ?thesis by (auto simp: cleared_def)
    next
      case v: True
      with k obtain d2 where
        s: "store_triggers d1 pair name [] = Inr d2"
        and r: "run_filters cfg m tr pair name params rest (False, d2, td1)
                = Inr (triggered', det', td')"
        by (auto simp: and_then_Inr)
      from Cons.IH [OF r] have "dispatched det' = dispatched d2" "\<not> triggered'"
        "detection_triggers det' = detection_triggers d2" by auto
      with s fr True show ?thesis
        by (auto simp: cleared_def store_triggers_Inr)
    qed
  qed
qed


lemma cleared_lookup:
  assumes "cleared det pair name det'"
  shows "stored_trigger_list det' pair name = Some []"
    and "n \<noteq> name \<Longrightarrow> stored_trigger_list det' pair n = stored_trigger_list det pair n"
    and "p \<noteq> pair \<Longrightarrow> detection_triggers det' p = detection_triggers det p"
  using assms by (auto simp: cleared_def stored_trigger_list_def update_conv')

lemma filter_detection_effect:
  assumes "filter_detection cfg m tr pair name params triggers (det, td) = Inr (filtered, det', td')"
  shows "dispatched det' = dispatched det \<and>
         (if filtered \<and> sum_list (set_triggers td) = length (set_triggers td)
          then cleared det pair name det'
          else detection_triggers det' = detection_triggers det) \<and>
         (\<not> filtered \<longrightarrow> sum_list (set_triggers td) = length (set_triggers td))"
proof -
  define triggered where "triggered = (sum_list (set_triggers td) = length (set_triggers td))"
  define td1 where "td1 = (if triggered then set_triggers_time_frame triggers td else td)"
  from assms obtain t1 d1 td2 where
    r: "run_filters cfg m tr pair name params filter_methods (triggered, det, td1)
          = Inr (t1, d1, td2)"
    and k: "(if t1 \<and> trade_use_indicators cfg \<and>
                param_action params \<in> {''buy'', ''rebuy''} \<and>
                enable_rsi cfg \<and> rsi_descending d1 pair
             then and_then (store_triggers
                             (d1\<lparr>alerts := alerts d1 @ [(pair, name, ''RSI SKIP BUY'')]\<rparr>)
                             pair name [])
                    (\<lambda>det''. Inr (True, det'', td2))
             else Inr (\<not> t1, d1, td2)) = Inr (filtered, det', td')"
    unfolding filter_detection_def Let_def triggered_def td1_def
    by (auto simp: and_then_Inr)
  note e = run_filters_effect [OF r]
  show ?thesis
  proof (cases "t1 \<and> trade_use_indicators cfg \<and>
                param_action params \<in> {''buy'', ''rebuy''} \<and>
                enable_rsi cfg \<and> rsi_descending d1 pair")
    case True
    with k obtain d2 where
      s: "store_triggers (d1\<lparr>alerts := alerts d1 @ [(pair, name, ''RSI SKIP BUY'')]\<rparr>)
            pair name [] = Inr d2"
      and "filtered" "det' = d2"
      by (auto simp: and_then_Inr)
    with e True show ?thesis
      by (auto simp: cleared_def store_triggers_Inr triggered_def)
  next
    case False
    with k have "filtered = (\<not> t1)" "det' = d1" by auto
    with e show ?thesis by (auto simp: triggered_def)
  qed
qed


lemma dispatch_effect:
  "detection_triggers (dispatch_detection_action det pair name params) = detection_triggers det"
  "dispatched (dispatch_detection_action det pair name params) = dispatched det \<or>
   dispatched (dispatch_detection_action det pair name params)
     = dispatched det @ [(pair, name, param_action params)]"
  by (simp_all add: dispatch_detection_action_def)


lemma set_triggers_aggregate:
  "set_triggers ((normalize_trigger_values (aggregate_trigger_data ts))\<lparr>td_current_time := c\<rparr>)
     = map tr_set ts"
  by (simp add: normalize_trigger_values_def aggregate_trigger_data_def Let_def)

lemma process_detection_effect:
  assumes "process_detection cfg m tr det pair name triggers = Inr det'"
  shows "\<exists>ts. timeout_triggers m pair (get_detection_params cfg name) triggers = Inr ts \<and>
           (\<forall>n. n \<noteq> name \<longrightarrow> stored_trigger_list det' pair n = stored_trigger_list det pair n) \<and>
           (\<forall>p. p \<noteq> pair \<longrightarrow> detection_triggers det' p = detection_triggers det p) \<and>
           ((dispatched det' = dispatched det \<and>
             (stored_trigger_list det' pair name = Some ts \<or>
              stored_trigger_list det' pair name = Some [] \<and>
                sum_list (map tr_set ts) = length ts)) \<or>
            (dispatched det' =
               dispatched det @ [(pair, name, param_action (get_detection_params cfg name))] \<and>
             stored_trigger_list det' pair name = Some [] \<and>
             sum_list (map tr_set ts) = length ts))"
proof -
  define params where "params = get_detection_params cfg name"
  from assms obtain ts d1 now filtered d2 td' where
    t: "timeout_triggers m pair params triggers = Inr ts"
    and s1: "store_triggers det pair name ts = Inr d1"
    and f: "filter_detection cfg m tr pair name params ts
              (d1, (normalize_trigger_values (aggregate_trigger_data ts))
                      \<lparr>td_current_time := Some now\<rparr>) = Inr (filtered, d2, td')"
    and k: "(if filtered then Inr d2
             else and_then (value_diff_percent m pair) (\<lambda>ratio.
                    if ratio \<le> detection_flash_crash_sens cfg
                    then and_then (log_warning_unformatted d2) (\<lambda>u. Inr d2)
                    else and_then (update_detection_stats cfg m
                                     (dispatch_detection_action d2 pair name params) pair name None)
                           (\<lambda>det3. store_triggers det3 pair name []))) = Inr det'"
    unfolding process_detection_def Let_def params_def [symmetric]
    by (auto simp: and_then_Inr)
  note l1 = store_triggers_lookup [OF s1]
  from filter_detection_effect [OF f]
  have e: "dispatched d2 = dispatched d1"
    "if filtered \<and> sum_list (map tr_set ts) = length ts
     then cleared d1 pair name d2 else detection_triggers d2 = detection_triggers d1"
    "\<not> filtered \<longrightarrow> sum_list (map tr_set ts) = length ts"
    by (simp_all add: set_triggers_aggregate)
  have d2: "(\<forall>n. n \<noteq> name \<longrightarrow> stored_trigger_list d2 pair n = stored_trigger_list det pair n) \<and>
            (\<forall>p. p \<noteq> pair \<longrightarrow> detection_triggers d2 p = detection_triggers det p) \<and>
            dispatched d2 = dispatched det \<and>
            (stored_trigger_list d2 pair name = Some ts \<or>
             stored_trigger_list d2 pair name = Some [] \<and> sum_list (map tr_set ts) = length ts)"
  proof (cases "filtered \<and> sum_list (map tr_set ts) = length ts")
    case True
    with e have c: "cleared d1 pair name d2" by simp
    from cleared_lookup [OF c] l1 e(1) True show ?thesis by simp
  next
    case False
    with e have "detection_triggers d2 = detection_triggers d1" by simp
    then have "stored_trigger_list d2 = stored_trigger_list d1"
      by (intro ext) (simp add: stored_trigger_list_def)
    with l1 e(1) \<open>detection_triggers d2 = detection_triggers d1\<close> show ?thesis by simp
  qed
  show ?thesis
  proof (cases "det' = d2")
    case True
    with d2 t show ?thesis unfolding params_def by blast
  next
    case False
    with k obtain d3 where
      nf: "\<not> filtered"
      and u: "update_detection_stats cfg m (dispatch_detection_action d2 pair name params)
                pair name None = Inr d3"
      and s3: "store_triggers d3 pair name [] = Inr det'"
      by (auto simp: and_then_Inr split: if_splits)
    note l3 = store_triggers_lookup [OF s3]
    from update_detection_stats_frame [OF u]
    have u': "detection_triggers d3 = detection_triggers d2"
      "dispatched d3 = dispatched (dispatch_detection_action d2 pair name params)"
      by (simp_all add: dispatch_effect)
    then have sl: "stored_trigger_list d3 = stored_trigger_list d2"
      by (intro ext) (simp add: stored_trigger_list_def)
    from dispatch_effect(2) [of d2 pair name params] u' l3 d2
    have "dispatched det' = dispatched det \<or>
          dispatched det' = dispatched det @ [(pair, name, param_action params)]"
      by auto
    moreover from nf e have "sum_list (map tr_set ts) = length ts" by simp
    moreover from l3 sl u' d2
    have "(\<forall>n. n \<noteq> name \<longrightarrow> stored_trigger_list det' pair n = stored_trigger_list det pair n) \<and>
          (\<forall>p. p \<noteq> pair \<longrightarrow> detection_triggers det' p = detection_triggers det p) \<and>
          stored_trigger_list det' pair name = Some []"
      by simp
    ultimately show ?thesis using t unfolding params_def by blast
  qed
qed

text \<open>
  When the guard defers, its warning is logged with a placeholder and no argument. With a
  sensitivity of 2, which the quotient 1.1 of the tick times is below, the default logger
  level makes the call raise \<^verbatim>\<open>IndexError\<close> out of \<^verbatim>\<open>process_detections\<close>; with a logger
  level above \<^verbatim>\<open>WARNING\<close> the detection is skipped and keeps its triggers.
\<close>

lemma flash_crash_deferral_raises:
  "process_detections
     ((detector_config [(''d1'', example_detection ''buy'' 1 [[Other_rule ''ready'']])])
        \<lparr>detection_flash_crash_sens := 2\<rparr>)
     ticking_market example_trader (example_detector [(''d1'', [set_trigger 660])]) ''BTC-ETH''
   = Inl IndexError"
  by (simp add: detector_defs example_defs Let_def)

lemma flash_crash_deferral_keeps_triggers:
  "map_sum id (\<lambda>det. (dispatched det, stored_trigger_list det ''BTC-ETH'' ''d1''))
     (process_detections
        ((detector_config [(''d1'', example_detection ''buy'' 1 [[Other_rule ''ready'']])])
           \<lparr>detection_flash_crash_sens := 2\<rparr>)
        ticking_market example_trader
        ((example_detector [(''d1'', [set_trigger 660])])\<lparr>log_level := 40\<rparr>) ''BTC-ETH'')
   = Inr ([], Some [set_trigger 660])"
  by (simp add: detector_defs example_defs Let_def)

text \<open>
  Claim C5. The claim is that the flash-crash guard compares the ratio of the pair's close
  values at the last two ticks with \<open>detection_flash_crash_sens\<close>. The guard divides the
  last two entries of \<^verbatim>\<open>close_times\<close> instead. With ticks at 600 and 660, close values
  10 and 4 and the sensitivity 0.5, the value ratio 0.4 is below the threshold, yet the
  guard sees 1.1 and the buy action is dispatched.
\<close>

theorem flash_crash_guard_reads_times:
  "detection_flash_crash_sens
      (detector_config [(''d1'', example_detection ''buy'' 1 [[Other_rule ''ready'']])]) = 1 / 2 \<and>
   close_values ticking_market ''BTC-ETH'' = Some [10, 4] \<and>
   value_diff_percent ticking_market ''BTC-ETH'' = Inr (11 / 10) \<and>
   map_sum id dispatched
     (process_detections
        (detector_config [(''d1'', example_detection ''buy'' 1 [[Other_rule ''ready'']])])
        ticking_market example_trader (example_detector [(''d1'', [set_trigger 660])])
        ''BTC-ETH'')
     = Inr [(''BTC-ETH'', ''d1'', ''buy'')]"
  by (simp add: detector_defs example_defs Let_def)

text \<open>
  Claim C10. When every condition trigger of a detection is set and the filter chain
  vetoes (a filter of the chain, or the RSI check that follows it, filters the
  detection), the detection's trigger list for the pair is empty afterwards, and the
  trigger lists of the other detections and of the other pairs are as before.
\<close>

theorem filter_veto_clears_triggers:
  assumes "filter_detection cfg m tr pair name params triggers (det, td) = Inr (True, det', td')"
    and "set_triggers td = map tr_set triggers"
    and "\<forall>t\<in>set triggers. tr_set t = 1"
  shows "stored_trigger_list det' pair name = Some [] \<and>
         (\<forall>n. n \<noteq> name \<longrightarrow> stored_trigger_list det' pair n = stored_trigger_list det pair n) \<and>
         (\<forall>p. p \<noteq> pair \<longrightarrow> detection_triggers det' p = detection_triggers det p)"
proof -
  from assms(3) have "sum_list (map tr_set triggers) = length triggers"
    by (induction triggers) simp_all
  with assms(2) have "sum_list (set_triggers td) = length (set_triggers td)" by simp
  with filter_detection_effect [OF assms(1)] have "cleared det pair name det'" by simp
  from cleared_lookup [OF this] show ?thesis by simp
qed

theorem filter_veto_clears_triggers_witness:
  "\<exists>det' td'.
     filter_detection
       (detector_config [(''d1'', example_detection ''buy'' 2 [[Other_rule ''ready'']])])
       ticking_market example_trader ''BTC-ETH'' ''d1''
       (example_detection ''buy'' 2 [[Other_rule ''ready'']]) [set_trigger 660]
       (example_detector [(''d1'', [set_trigger 660]), (''d2'', [set_trigger 600])],
        aggregate_trigger_data [set_trigger 660]) = Inr (True, det', td') \<and>
     stored_trigger_list det' ''BTC-ETH'' ''d1'' = Some [] \<and>
     stored_trigger_list det' ''BTC-ETH'' ''d2'' = Some [set_trigger 600]"
proof -
  have "\<exists>det' td'.
     filter_detection
       (detector_config [(''d1'', example_detection ''buy'' 2 [[Other_rule ''ready'']])])
       ticking_market example_trader ''BTC-ETH'' ''d1''
       (example_detection ''buy'' 2 [[Other_rule ''ready'']]) [set_trigger 660]
       (example_detector [(''d1'', [set_trigger 660]), (''d2'', [set_trigger 600])],
        aggregate_trigger_data [set_trigger 660]) = Inr (True, det', td')"
    by (simp add: detector_defs example_defs Let_def)
  then obtain det' td' where e: "filter_detection
       (detector_config [(''d1'', example_detection ''buy'' 2 [[Other_rule ''ready'']])])
       ticking_market example_trader ''BTC-ETH'' ''d1''
       (example_detection ''buy'' 2 [[Other_rule ''ready'']]) [set_trigger 660]
       (example_detector [(''d1'', [set_trigger 660]), (''d2'', [set_trigger 600])],
        aggregate_trigger_data [set_trigger 660]) = Inr (True, det', td')"
    by blast
  have a: "set_triggers (aggregate_trigger_data [set_trigger 660]) = map tr_set [set_trigger 660]"
    by (simp add: aggregate_trigger_data_def)
  have b: "\<forall>t\<in>set [set_trigger 660]. tr_set t = 1"
    by (simp add: set_trigger_def)
  from filter_veto_clears_triggers [OF e a b]
  have "stored_trigger_list det' ''BTC-ETH'' ''d1'' = Some []"
    and "stored_trigger_list det' ''BTC-ETH'' ''d2''
         = stored_trigger_list
             (example_detector [(''d1'', [set_trigger 660]), (''d2'', [set_trigger 600])])
             ''BTC-ETH'' ''d2''"
    by simp_all
  moreover have "stored_trigger_list
             (example_detector [(''d1'', [set_trigger 660]), (''d2'', [set_trigger 600])])
             ''BTC-ETH'' ''d2'' = Some [set_trigger 600]"
    by (simp add: stored_trigger_list_def example_detector_def)
  ultimately show ?thesis using e by auto
qed

lemma process_names_effect:
  assumes "process_names cfg m tr pair names det = Inr det'" and "distinct names"
  shows "(\<forall>n. n \<notin> set names \<longrightarrow> stored_trigger_list det' pair n = stored_trigger_list det pair n) \<and>
         (\<exists>new. dispatched det' = dispatched det @ new \<and>
            distinct (map (\<lambda>e. fst (snd e)) new) \<and> fst ` snd ` set new \<subseteq> set names \<and>
            list_all (fired_and_cleared cfg m det det' pair) new)"
  using assms
proof (induction names arbitrary: det)
  case Nil
  then show ?case by simp
next
  case (Cons name rest)
  from Cons.prems obtain ts0 d1 where
    s0: "stored_trigger_list det pair name = Some ts0"
    and p: "process_detection cfg m tr det pair name ts0 = Inr d1"
    and r: "process_names cfg m tr pair rest d1 = Inr det'"
    by (auto simp: and_then_Inr split: option.splits)
  from Cons.prems have dr: "distinct rest" and nr: "name \<notin> set rest" by simp_all
  from Cons.IH [OF r dr] obtain new where
    fr: "\<forall>n. n \<notin> set rest \<longrightarrow> stored_trigger_list det' pair n = stored_trigger_list d1 pair n"
    and n1: "dispatched det' = dispatched d1 @ new" "distinct (map (\<lambda>e. fst (snd e)) new)"
            "fst ` snd ` set new \<subseteq> set rest"
            "list_all (fired_and_cleared cfg m d1 det' pair) new"
    by blast
  from process_detection_effect [OF p] obtain ts where
    t: "timeout_triggers m pair (get_detection_params cfg name) ts0 = Inr ts"
    and f1: "\<forall>n. n \<noteq> name \<longrightarrow> stored_trigger_list d1 pair n = stored_trigger_list det pair n"
    and c: "(dispatched d1 = dispatched det \<and>
             (stored_trigger_list d1 pair name = Some ts \<or>
              stored_trigger_list d1 pair name = Some [] \<and>
                sum_list (map tr_set ts) = length ts)) \<or>
            (dispatched d1 =
               dispatched det @ [(pair, name, param_action (get_detection_params cfg name))] \<and>
             stored_trigger_list d1 pair name = Some [] \<and>
             sum_list (map tr_set ts) = length ts)"
    by blast
  have frame: "\<forall>n. n \<notin> set (name # rest) \<longrightarrow>
                 stored_trigger_list det' pair n = stored_trigger_list det pair n"
    using fr f1 by simp
  have lift: "list_all (fired_and_cleared cfg m det det' pair) new"
  proof -
    have "fired_and_cleared cfg m det det' pair e"
      if "e \<in> set new" "fired_and_cleared cfg m d1 det' pair e" for e
    proof -
      obtain p n a where e: "e = (p, n, a)" by (cases e)
      with that(1) n1(3) have "n \<in> set rest" by force
      with nr have "n \<noteq> name" by auto
      with f1 have "stored_trigger_list d1 pair n = stored_trigger_list det pair n" by simp
      with that(2) e show ?thesis by (simp add: fired_and_cleared_def)
    qed
    with n1(4) show ?thesis by (auto simp: list_all_iff)
  qed
  from c show ?case
  proof
    assume "dispatched d1 = dispatched det \<and>
             (stored_trigger_list d1 pair name = Some ts \<or>
              stored_trigger_list d1 pair name = Some [] \<and>
                sum_list (map tr_set ts) = length ts)"
    with n1 lift frame show ?thesis by auto
  next
    assume a: "dispatched d1 =
               dispatched det @ [(pair, name, param_action (get_detection_params cfg name))] \<and>
             stored_trigger_list d1 pair name = Some [] \<and>
             sum_list (map tr_set ts) = length ts"
    let ?e = "(pair, name, param_action (get_detection_params cfg name))"
    from a fr nr have "stored_trigger_list det' pair name = Some []" by simp
    with a s0 t have fe: "fired_and_cleared cfg m det det' pair ?e"
      by (auto simp: fired_and_cleared_def)
    have "dispatched det' = dispatched det @ (?e # new)" using a n1(1) by simp
    moreover have "distinct (map (\<lambda>e. fst (snd e)) (?e # new))" using n1(2,3) nr by auto
    moreover have "fst ` snd ` set (?e # new) \<subseteq> set (name # rest)" using n1(3) by auto
    moreover have "list_all (fired_and_cleared cfg m det det' pair) (?e # new)"
      using fe lift by simp
    ultimately show ?thesis using frame by blast
  qed
qed

text \<open>
  Claim C4. For the detections of a pair, \<open>process_detections\<close> appends one entry to the
  dispatch record for each detection it fires and for no other; each detection is fired
  at most once, every trigger of a fired detection was set when its turn came (after the
  timeouts), and its trigger list is empty when \<open>process_detections\<close> returns.
\<close>

theorem firing_clears_triggers:
  assumes "process_detections cfg m tr det pair = Inr det'"
    and "detection_triggers det pair = Some by_name"
    and "distinct (map fst by_name)"
  shows "\<exists>new. dispatched det' = dispatched det @ new \<and>
           distinct (map (\<lambda>e. fst (snd e)) new) \<and>
           list_all (fired_and_cleared cfg m det det' pair) new"
  using process_names_effect [of cfg m tr pair "map fst by_name" det det'] assms
  by (auto simp: process_detections_def)


theorem firing_clears_triggers_witness:
  "\<exists>det'.
     process_detections
       (detector_config [(''d1'', example_detection ''buy'' 1 [[Other_rule ''ready'']]),
                         (''d2'', example_detection ''alert'' 1 [[Other_rule ''steady'']])])
       ticking_market example_trader
       (example_detector [(''d1'', [set_trigger 660]), (''d2'', [empty_trigger 600])])
       ''BTC-ETH'' = Inr det' \<and>
     dispatched det' = [(''BTC-ETH'', ''d1'', ''buy'')] \<and>
     stored_trigger_list det' ''BTC-ETH'' ''d1'' = Some []"
proof -
  let ?cfg = "detector_config [(''d1'', example_detection ''buy'' 1 [[Other_rule ''ready'']]),
                               (''d2'', example_detection ''alert'' 1 [[Other_rule ''steady'']])]"
  let ?det = "example_detector [(''d1'', [set_trigger 660]), (''d2'', [empty_trigger 600])]"
  have "\<exists>det'. process_detections ?cfg ticking_market example_trader ?det ''BTC-ETH'' = Inr det' \<and>
          dispatched det' = [(''BTC-ETH'', ''d1'', ''buy'')]"
    by (simp add: detector_defs example_defs Let_def)
  then obtain det' where
    e: "process_detections ?cfg ticking_market example_trader ?det ''BTC-ETH'' = Inr det'"
    and d: "dispatched det' = [(''BTC-ETH'', ''d1'', ''buy'')]"
    by blast
  have t: "detection_triggers ?det ''BTC-ETH''
           = Some [(''d1'', [set_trigger 660]), (''d2'', [empty_trigger 600])]"
    by (simp add: example_detector_def)
  have u: "distinct (map fst [(''d1'', [set_trigger 660]), (''d2'', [empty_trigger 600])])"
    by simp
  from firing_clears_triggers [OF e t u] obtain new where
    "dispatched det' = dispatched ?det @ new"
    "list_all (fired_and_cleared ?cfg ticking_market ?det det' ''BTC-ETH'') new"
    by blast
  with d have "fired_and_cleared ?cfg ticking_market ?det det' ''BTC-ETH''
                 (''BTC-ETH'', ''d1'', ''buy'')"
    by (simp add: example_detector_def)
  then have "stored_trigger_list det' ''BTC-ETH'' ''d1'' = Some []"
    by (simp add: fired_and_cleared_def)
  with e d show ?thesis by blast
qed














section \<open>Properties of the follow filter\<close>

lemma filter_follow_rule_group_any_td:
  "map_sum id fst (filter_follow_rule_group cfg m det pair rule grp td)
   = map_sum id fst (filter_follow_rule_group cfg m det pair rule grp td0)"
proof (cases "current_adjusted_value m pair")
  case (Inl e)
  then show ?thesis by (simp add: filter_follow_rule_group_def and_then_def)
next
  case v: (Inr current_value)
  show ?thesis
  proof (cases "current_tick_time m pair")
    case (Inl e)
    with v show ?thesis by (simp add: filter_follow_rule_group_def and_then_def)
  next
    case t: (Inr current_time)
    show ?thesis
    proof (cases "last_detections det pair grp")
      case None
      with v t show ?thesis by (simp add: filter_follow_rule_group_def and_then_def)
    next
      case (Some ld)
      with v t show ?thesis
        by (simp add: filter_follow_rule_group_def and_then_def Let_def)
    qed
  qed
qed

lemma follow_rule_group_fails_iff:
  assumes "filter_follow_rule_group cfg m det pair rule grp td = Inr (b, td')"
  shows "follow_rule_group_fails cfg m det pair rule grp = b"
  using filter_follow_rule_group_any_td [of cfg m det pair rule grp "aggregate_trigger_data []" td]
    assms
  by (auto simp: follow_rule_group_fails_def)

lemma follow_rule_passes_iff:
  assumes "follow_rule_passes cfg m det pair rule groups td = Inr (passed, td')"
  shows "passed \<longleftrightarrow> (\<exists>grp\<in>set groups. \<not> follow_rule_group_fails cfg m det pair rule grp)"
  using assms
proof (induction groups arbitrary: td)
  case Nil
  then show ?case by simp
next
  case (Cons grp rest)
  from Cons.prems obtain filtered td1 where
    g: "filter_follow_rule_group cfg m det pair rule grp td = Inr (filtered, td1)"
    and k: "(if \<not> filtered then Inr (True, td1)
             else follow_rule_passes cfg m det pair rule rest td1) = Inr (passed, td')"
    by (auto simp: and_then_Inr)
  note f = follow_rule_group_fails_iff [OF g]
  show ?case
  proof (cases filtered)
    case True
    with k have "follow_rule_passes cfg m det pair rule rest td1 = Inr (passed, td')" by simp
    from Cons.IH [OF this] f True show ?thesis by simp
  next
    case False
    with k f show ?thesis by auto
  qed
qed

lemma some_follow_rule_passes_iff:
  assumes "some_follow_rule_passes cfg m det pair rules td = Inr (passed, td')"
  shows "passed \<longleftrightarrow>
           (\<exists>rule\<in>set rules. \<exists>grp\<in>set (fr_groups rule).
              \<not> follow_rule_group_fails cfg m det pair rule grp)"
  using assms
proof (induction rules arbitrary: td)
  case Nil
  then show ?case by simp
next
  case (Cons rule rest)
  from Cons.prems obtain p1 td1 where
    g: "follow_rule_passes cfg m det pair rule (fr_groups rule) td = Inr (p1, td1)"
    and k: "(if p1 then Inr (True, td1)
             else some_follow_rule_passes cfg m det pair rest td1) = Inr (passed, td')"
    by (auto simp: and_then_Inr)
  note f = follow_rule_passes_iff [OF g]
  show ?case
  proof (cases p1)
    case True
    with k f show ?thesis by auto
  next
    case False
    with k have "some_follow_rule_passes cfg m det pair rest td1 = Inr (passed, td')" by simp
    from Cons.IH [OF this] f False show ?thesis by simp
  qed
qed

text \<open>The sibling filter \<^verbatim>\<open>follow_all\<close> is the one that asks every rule to pass.\<close>

lemma count_follow_rules_count:
  assumes "count_follow_rules cfg m det pair rules (n, td) = Inr (n', td')"
  shows "n' = n + length (filter (\<lambda>rule. \<exists>grp\<in>set (fr_groups rule).
                                     \<not> follow_rule_group_fails cfg m det pair rule grp) rules)"
  using assms
proof (induction rules arbitrary: n td)
  case Nil
  then show ?case by simp
next
  case (Cons rule rest)
  from Cons.prems obtain passed td1 where
    g: "follow_rule_passes cfg m det pair rule (fr_groups rule) td = Inr (passed, td1)"
    and k: "count_follow_rules cfg m det pair rest
              (if passed then n + 1 else n, td1) = Inr (n', td')"
    by (auto simp: and_then_Inr)
  from Cons.IH [OF k] follow_rule_passes_iff [OF g] show ?case by simp
qed

lemma follow_all_vetoes_unless_all_pass:
  assumes "detection_filter_follow_all cfg m pair params (det, td) = Inr (vetoed, det', td')"
    and "follow_all params = Some rules"
  shows "vetoed \<longleftrightarrow>
           \<not> (\<forall>rule\<in>set rules. \<exists>grp\<in>set (fr_groups rule).
                \<not> follow_rule_group_fails cfg m det pair rule grp)"
proof -
  from assms obtain n where
    c: "count_follow_rules cfg m det pair rules (0, td) = Inr (n, td')"
    and v: "vetoed = (n \<noteq> length rules)"
    by (auto simp: detection_filter_follow_all_def Let_def and_then_Inr)
  have "length (filter P xs) = length xs \<longleftrightarrow> (\<forall>x\<in>set xs. P x)" for P and xs :: "follow_rule list"
    by (metis filter_id_conv length_filter_less less_irrefl)
  with count_follow_rules_count [OF c] v show ?thesis by simp
qed

lemmas follow_defs =
  detection_filter_follow_def filter_follow_rule_group_def follow_rule_group_fails_def
  follow_secs_def follow_rule_for_def example_last_detection_def following_detector_def
  following_detection_def

text \<open>
  Claim C6, as stated, says that the \<^verbatim>\<open>follow\<close> filter vetoes as soon as one of the
  listed follow-rules fails. With two rules of which the second fails (no detection is
  recorded for its group) and the first passes, the filter does not veto.
\<close>

theorem follow_permits_with_failing_rule:
  "follow_rule_group_fails (detector_config [(''d1'', following_detection)]) ticking_market
     following_detector ''BTC-ETH'' (follow_rule_for ''g2'' ''init1'') ''g2'' \<and>
   map_sum id fst
     (detection_filter_follow (detector_config [(''d1'', following_detection)]) ticking_market
        ''BTC-ETH'' following_detection
        (following_detector, aggregate_trigger_data [set_trigger 660])) = Inr False"
  by (simp add: follow_defs detector_defs example_defs Let_def)

text \<open>
  Claim C6, amended: the \<^verbatim>\<open>follow\<close> filter vetoes exactly when every listed
  follow-rule fails for every one of its groups; one rule that passes for one of its
  groups is enough to let the detection through.
\<close>

theorem follow_vetoes_when_all_fail:
  assumes "detection_filter_follow cfg m pair params (det, td) = Inr (vetoed, det', td')"
    and "follow params = Some rules"
  shows "vetoed \<longleftrightarrow>
           (\<forall>rule\<in>set rules. \<forall>grp\<in>set (fr_groups rule).
              follow_rule_group_fails cfg m det pair rule grp)"
proof -
  from assms obtain passed where
    "some_follow_rule_passes cfg m det pair rules td = Inr (passed, td')" "vetoed = (\<not> passed)"
    by (auto simp: detection_filter_follow_def and_then_Inr)
  with some_follow_rule_passes_iff [of cfg m det pair rules td passed td']
  show ?thesis by simp
qed


theorem follow_vetoes_when_all_fail_witness:
  "\<exists>det' td'.
     detection_filter_follow (detector_config [(''d1'', following_detection)]) ticking_market
       ''BTC-ETH'' following_detection
       (following_detector, aggregate_trigger_data [set_trigger 660]) = Inr (False, det', td') \<and>
     \<not> (follow_rule_group_fails (detector_config [(''d1'', following_detection)])
          ticking_market following_detector ''BTC-ETH'' (follow_rule_for ''g1'' ''init0'') ''g1'' \<and>
        follow_rule_group_fails (detector_config [(''d1'', following_detection)])
          ticking_market following_detector ''BTC-ETH'' (follow_rule_for ''g2'' ''init1'') ''g2'')"
proof -
  let ?cfg = "detector_config [(''d1'', following_detection)]"
  have "\<exists>det' td'.
     detection_filter_follow ?cfg ticking_market ''BTC-ETH'' following_detection
       (following_detector, aggregate_trigger_data [set_trigger 660]) = Inr (False, det', td')"
    by (simp add: follow_defs detector_defs example_defs Let_def)
  then obtain det' td' where
    e: "detection_filter_follow ?cfg ticking_market ''BTC-ETH'' following_detection
          (following_detector, aggregate_trigger_data [set_trigger 660]) = Inr (False, det', td')"
    by blast
  have f: "follow following_detection
           = Some [follow_rule_for ''g1'' ''init0'', follow_rule_for ''g2'' ''init1'']"
    by (simp add: following_detection_def)
  from follow_vetoes_when_all_fail [OF e f]
  have "\<not> (follow_rule_group_fails ?cfg ticking_market following_detector ''BTC-ETH''
              (follow_rule_for ''g1'' ''init0'') ''g1'' \<and>
            follow_rule_group_fails ?cfg ticking_market following_detector ''BTC-ETH''
              (follow_rule_for ''g2'' ''init1'') ''g2'')"
    by (simp add: follow_rule_for_def)
  with e show ?thesis by blast
qed

section \<open>Properties of the crossover rule\<close>

lemma ma_crossover_fresh_ready:
  assumes "ma_ready cfg m pair kind a b = Some (f1, s1)"
  shows "ma_crossover_fresh cfg m det pair kind a b ci name =
           (Result (Some (if s1 \<le> f1 \<and> stored_position det pair name ci = Some 0 then 1 else 0))
              [Ma_values [f1, s1], Ma_positions [if f1 < s1 then 0 else 1]], True)"
  using assms
  by (auto simp: ma_ready_def ma_crossover_fresh_def stored_position_def from_end_def Let_def
      split: if_splits option.splits list.splits ma_kind.splits)


lemmas update_defs =
  update_detection_triggers_def update_condition_def get_detection_trigger_def
  check_ma_crossover_def ma_crossover_fresh_def py_isclose_def detection_cycle_def
  result_state_def ma_market_def crossing_config_def rules_fail_def

lemma crossover_probe:
  assumes "ma_ready cfg m pair kind a b = Some (f, s)"
  shows "result_state (fst (check_ma_crossover cfg m det Map.empty pair kind a b ci name))
           = Some (if s \<le> f \<and> stored_position det pair name ci = Some 0 then 1 else 0)"
  using ma_crossover_fresh_ready [OF assms, of det ci name]
  by (simp add: check_ma_crossover_def result_state_def)

lemma update_single_fresh:
  assumes cfg: "detections cfg = [(name, d)]" "conditions d = [[Ma_crossover kind a b]]"
    and start: "stored_trigger det pair name 0 = None \<or>
                (\<exists>t. stored_trigger det pair name 0 = Some t \<and> tr_set t = 0)"
    and ready: "ma_ready cfg m pair kind a b = Some (f, s)"
    and run: "update_detection_triggers cfg m other det pair = Inr det1"
  shows "\<exists>T. detection_triggers det1 pair = Some [(name, [T])] \<and>
              ma_positions T = [if f < s then 0 else 1] \<and> (f < s \<longrightarrow> tr_set T = 0)"
proof -
  from run obtain t where t: "current_tick_time m pair = Inr t"
    by (cases "current_tick_time m pair")
       (auto simp: update_detection_triggers_def and_then_Inr)
  define st where "st = (if s \<le> f \<and> stored_position det pair name 0 = Some 0 then 1 else 0 :: nat)"
  define T where "T = (empty_trigger t)
      \<lparr>ma_values := [f, s], ma_positions := [if f < s then 0 else 1],
       tr_set := (if st = 1 then 1 else 0)\<rparr>"
  have fresh: "ma_crossover_fresh cfg m det pair kind a b 0 name =
           (Result (Some st) [Ma_values [f, s], Ma_positions [if f < s then 0 else 1]], True)"
    using ma_crossover_fresh_ready [OF ready, of det 0 name] by (simp add: st_def)
  have g: "get_detection_trigger cfg m other det Map.empty pair name 0
             = Inr (T, [Ma_crossover kind a b \<mapsto>
                         Result (Some st) [Ma_values [f, s], Ma_positions [if f < s then 0 else 1]]])"
    using t cfg fresh
    by (simp add: get_detection_trigger_def and_then_def check_ma_crossover_def T_def
        empty_trigger_def)
  have u: "update_condition cfg m other det Map.empty pair name 0
             = Inr (T, [Ma_crossover kind a b \<mapsto>
                         Result (Some st) [Ma_values [f, s], Ma_positions [if f < s then 0 else 1]]])"
    using start g by (auto simp: update_condition_def)
  have "update_detections cfg m other det pair (detections cfg) ([], Map.empty)
          = Inr ([(name, [T])],
                 [Ma_crossover kind a b \<mapsto>
                    Result (Some st) [Ma_values [f, s], Ma_positions [if f < s then 0 else 1]]])"
    using cfg u by (simp add: and_then_def)
  with run t have "detection_triggers det1 pair = Some [(name, [T])]"
    by (auto simp: update_detection_triggers_def and_then_def)
  moreover have "ma_positions T = [if f < s then 0 else 1]"
    by (simp add: T_def)
  moreover have "f < s \<longrightarrow> tr_set T = 0"
    by (simp add: T_def st_def)
  ultimately show ?thesis by blast
qed

lemma timeout_single:
  assumes "timeout_triggers m pair params [T] = Inr ts"
  shows "\<exists>T'. ts = [T'] \<and> ma_positions T' = ma_positions T \<and> (tr_set T = 0 \<longrightarrow> tr_set T' = 0)"
  using assms
  by (auto simp: timeout_triggers_def and_then_Inr split: option.splits)

lemma process_single:
  assumes d: "detection_triggers det1 pair = Some [(name, [T])]"
    and run: "process_detections cfg m tr det1 pair = Inr det'"
  shows "(\<exists>T'. stored_trigger_list det' pair name = Some [T'] \<and>
               ma_positions T' = ma_positions T \<and> (tr_set T = 0 \<longrightarrow> tr_set T' = 0)) \<or>
         (stored_trigger_list det' pair name = Some [] \<and> tr_set T \<noteq> 0)"
proof -
  have sl: "stored_trigger_list det1 pair name = Some [T]"
    using d by (simp add: stored_trigger_list_def)
  from run d sl have p: "process_detection cfg m tr det1 pair name [T] = Inr det'"
    by (simp add: process_detections_def and_then_Inr)
  from process_detection_effect [OF p] obtain ts where
    t: "timeout_triggers m pair (get_detection_params cfg name) [T] = Inr ts"
    and c: "stored_trigger_list det' pair name = Some ts \<or>
            stored_trigger_list det' pair name = Some [] \<and> sum_list (map tr_set ts) = length ts"
    by blast
  from timeout_single [OF t] obtain T' where
    T': "ts = [T']" "ma_positions T' = ma_positions T" "tr_set T = 0 \<longrightarrow> tr_set T' = 0"
    by auto
  from c show ?thesis
  proof
    assume "stored_trigger_list det' pair name = Some ts"
    with T' show ?thesis by auto
  next
    assume "stored_trigger_list det' pair name = Some [] \<and> sum_list (map tr_set ts) = length ts"
    with T' show ?thesis by auto
  qed
qed

lemma stored_trigger_of_list:
  "stored_trigger det pair name ci =
     (case stored_trigger_list det pair name of
        None \<Rightarrow> None
      | Some ts \<Rightarrow> if ci < length ts then Some (ts ! ci) else None)"
  by (simp add: stored_trigger_def stored_trigger_list_def split: option.splits)

lemma cycle_below:
  assumes cfg: "detections cfg = [(name, d)]" "conditions d = [[Ma_crossover kind a b]]"
    and start: "stored_trigger det pair name 0 = None \<or>
                (\<exists>t. stored_trigger det pair name 0 = Some t \<and> tr_set t = 0)"
    and ready: "ma_ready cfg m pair kind a b = Some (f, s)" and below: "f < s"
    and run: "detection_cycle cfg m other tr det pair = Inr det'"
  shows "\<exists>T. stored_trigger det' pair name 0 = Some T \<and> tr_set T = 0 \<and> ma_positions T = [0]"
proof -
  from run obtain det1 where
    u: "update_detection_triggers cfg m other det pair = Inr det1"
    and p: "process_detections cfg m tr det1 pair = Inr det'"
    by (auto simp: detection_cycle_def and_then_Inr)
  from update_single_fresh [OF cfg start ready u] below obtain T where
    T: "detection_triggers det1 pair = Some [(name, [T])]" "ma_positions T = [0]" "tr_set T = 0"
    by auto
  from process_single [OF T(1) p] T(2,3) show ?thesis
    by (auto simp: stored_trigger_of_list)
qed

lemma cycle_above:
  assumes cfg: "detections cfg = [(name, d)]" "conditions d = [[Ma_crossover kind a b]]"
    and start: "stored_trigger det pair name 0 = None \<or>
                (\<exists>t. stored_trigger det pair name 0 = Some t \<and> tr_set t = 0)"
    and ready: "ma_ready cfg m pair kind a b = Some (f, s)" and above: "s \<le> f"
    and run: "detection_cycle cfg m other tr det pair = Inr det'"
  shows "stored_position det' pair name 0 \<noteq> Some 0"
proof -
  from run obtain det1 where
    u: "update_detection_triggers cfg m other det pair = Inr det1"
    and p: "process_detections cfg m tr det1 pair = Inr det'"
    by (auto simp: detection_cycle_def and_then_Inr)
  from update_single_fresh [OF cfg start ready u] above obtain T where
    T: "detection_triggers det1 pair = Some [(name, [T])]" "ma_positions T = [1]"
    by auto
  from process_single [OF T(1) p] T(2) show ?thesis
    by (auto simp: stored_position_def stored_trigger_of_list)
qed

text \<open>
  With both arrays long enough and not near zero at the previous tick, the rule returns 1
  exactly when the first average is now at or above the second and the first position
  recorded in the trigger stored for its detection and condition is 0. For a configuration
  whose only detection has the crossover rule alone as its only condition, and whose
  stored trigger is absent or not set at the start, the cycles below, below, above, above
  return 0, 0, 1, 0.
\<close>

lemma single_crossover_states:
  assumes cfg: "detections cfg = [(name, d)]" "conditions d = [[Ma_crossover kind a b]]"
    and start: "stored_trigger det pair name 0 = None \<or>
                (\<exists>t. stored_trigger det pair name 0 = Some t \<and> tr_set t = 0)"
    and m1: "ma_ready cfg m1 pair kind a b = Some (f1, s1)" "f1 < s1"
    and m2: "ma_ready cfg m2 pair kind a b = Some (f2, s2)" "f2 < s2"
    and m3: "ma_ready cfg m3 pair kind a b = Some (f3, s3)" "s3 \<le> f3"
    and m4: "ma_ready cfg m4 pair kind a b = Some (f4, s4)" "s4 \<le> f4"
    and run: "crossover_states cfg other tr pair name 0 kind a b [m1, m2, m3, m4] det = Inr states"
  shows "states = [Some 0, Some 0, Some 1, Some 0] \<and>
         (\<forall>m det0 name0 ci f s. ma_ready cfg m pair kind a b = Some (f, s) \<longrightarrow>
            result_state (fst (check_ma_crossover cfg m det0 Map.empty pair kind a b ci name0))
              = Some (if s \<le> f \<and> stored_position det0 pair name0 ci = Some 0 then 1 else 0))"
proof
  from run obtain d1 d2 d3 d4 where
    c1: "detection_cycle cfg m1 other tr det pair = Inr d1"
    and c2: "detection_cycle cfg m2 other tr d1 pair = Inr d2"
    and c3: "detection_cycle cfg m3 other tr d2 pair = Inr d3"
    and c4: "detection_cycle cfg m4 other tr d3 pair = Inr d4"
    and st: "states =
      [result_state (fst (check_ma_crossover cfg m1 det Map.empty pair kind a b 0 name)),
       result_state (fst (check_ma_crossover cfg m2 d1 Map.empty pair kind a b 0 name)),
       result_state (fst (check_ma_crossover cfg m3 d2 Map.empty pair kind a b 0 name)),
       result_state (fst (check_ma_crossover cfg m4 d3 Map.empty pair kind a b 0 name))]"
    by (auto simp: and_then_Inr)
  from cycle_below [OF cfg start m1 c1] obtain T1 where
    T1: "stored_trigger d1 pair name 0 = Some T1" "tr_set T1 = 0" "ma_positions T1 = [0]"
    by auto
  then have s1: "stored_trigger d1 pair name 0 = None \<or>
                 (\<exists>t. stored_trigger d1 pair name 0 = Some t \<and> tr_set t = 0)" by simp
  from cycle_below [OF cfg s1 m2 c2] obtain T2 where
    T2: "stored_trigger d2 pair name 0 = Some T2" "tr_set T2 = 0" "ma_positions T2 = [0]"
    by auto
  then have s2: "stored_trigger d2 pair name 0 = None \<or>
                 (\<exists>t. stored_trigger d2 pair name 0 = Some t \<and> tr_set t = 0)" by simp
  from T2 have p2: "stored_position d2 pair name 0 = Some 0"
    by (simp add: stored_position_def)
  note p3 = cycle_above [OF cfg s2 m3 c3]
  have "result_state (fst (check_ma_crossover cfg m1 det Map.empty pair kind a b 0 name)) = Some 0"
    using crossover_probe [OF m1(1)] m1(2) by simp
  moreover
  have "result_state (fst (check_ma_crossover cfg m2 d1 Map.empty pair kind a b 0 name)) = Some 0"
    using crossover_probe [OF m2(1)] m2(2) by simp
  moreover
  have "result_state (fst (check_ma_crossover cfg m3 d2 Map.empty pair kind a b 0 name)) = Some 1"
    using crossover_probe [OF m3(1)] m3(2) p2 by simp
  moreover
  have "result_state (fst (check_ma_crossover cfg m4 d3 Map.empty pair kind a b 0 name)) = Some 0"
    using crossover_probe [OF m4(1)] p3 by simp
  ultimately show "states = [Some 0, Some 0, Some 1, Some 0]"
    using st by simp
next
  show "\<forall>m det0 name0 ci f s. ma_ready cfg m pair kind a b = Some (f, s) \<longrightarrow>
            result_state (fst (check_ma_crossover cfg m det0 Map.empty pair kind a b ci name0))
              = Some (if s \<le> f \<and> stored_position det0 pair name0 ci = Some 0 then 1 else 0)"
    by (intro allI impI) (rule crossover_probe)
qed


lemma single_crossover_example:
  "crossover_states single_crossing_config rules_fail example_trader ''BTC-ETH'' ''d1'' 0 MA 0 1
     [ma_market 1 2, ma_market 1 2, ma_market 3 2, ma_market 3 2] (example_detector [])
   = Inr [Some 0, Some 0, Some 1, Some 0]"
proof -
  have c: "detections single_crossing_config
             = [(''d1'', example_detection ''alert'' 1 [[Ma_crossover MA 0 1]])]"
    "conditions (example_detection ''alert'' 1 [[Ma_crossover MA 0 1]]) = [[Ma_crossover MA 0 1]]"
    by (simp_all add: single_crossing_config_def example_defs)
  have s: "stored_trigger (example_detector []) ''BTC-ETH'' ''d1'' 0 = None \<or>
           (\<exists>t. stored_trigger (example_detector []) ''BTC-ETH'' ''d1'' 0 = Some t \<and> tr_set t = 0)"
    by (simp add: stored_trigger_def example_detector_def)
  have below: "ma_ready single_crossing_config (ma_market 1 2) ''BTC-ETH'' MA 0 1 = Some (1, 2)"
    "(1::real) < 2"
    by (simp_all add: ma_ready_def ma_market_def single_crossing_config_def py_isclose_def
        example_defs)
  have above: "ma_ready single_crossing_config (ma_market 3 2) ''BTC-ETH'' MA 0 1 = Some (3, 2)"
    "(2::real) \<le> 3"
    by (simp_all add: ma_ready_def ma_market_def single_crossing_config_def py_isclose_def
        example_defs)
  have "\<exists>states. crossover_states single_crossing_config rules_fail example_trader ''BTC-ETH''
          ''d1'' 0 MA 0 1 [ma_market 1 2, ma_market 1 2, ma_market 3 2, ma_market 3 2]
          (example_detector []) = Inr states"
    by (simp add: single_crossing_config_def update_defs detector_defs example_defs Let_def)
  then obtain states where
    r: "crossover_states single_crossing_config rules_fail example_trader ''BTC-ETH''
          ''d1'' 0 MA 0 1 [ma_market 1 2, ma_market 1 2, ma_market 3 2, ma_market 3 2]
          (example_detector []) = Inr states"
    by blast
  from single_crossover_states [OF c s below below above above r]
  have "states = [Some 0, Some 0, Some 1, Some 0]" by blast
  with r show ?thesis by simp
qed

text \<open>
  Claim C2. The claim is that a crossover rule returns 1 exactly on the cycle where the
  first average goes from below the second to at or above it, and the docstring of
  \<^verbatim>\<open>_check_ma_crossover\<close> says it returns 1 if the first average just crossed over the
  second. The rule takes the previous position from the trigger stored for its detection
  and condition, and the update keeps a trigger that is set with the metadata it was set
  with, so the position it stores is not the previous cycle's. With a detection whose
  second condition never passes, the first crossover sets the trigger; over the following
  cycles below, below, above, above the rule returns 0, 0, 0, 0: the second crossover
  is missed.
\<close>

theorem crossover_missed_while_set:
  "crossover_states crossing_config rules_fail example_trader ''BTC-ETH'' ''d1'' 0 MA 0 1
     [ma_market 1 2, ma_market 3 2, ma_market 1 2, ma_market 1 2, ma_market 3 2, ma_market 3 2]
     (example_detector [])
   = Inr [Some 0, Some 1, Some 0, Some 0, Some 0, Some 0]"
  by (simp add: update_defs detector_defs example_defs Let_def)

end
